theory Spec2Isabelle
  imports Complex_Main
begin

section \<open>Template strings\<close>

text \<open>
  The TypeScript sources build messages and keys with template strings, for instance
  \<^verbatim>\<open>`HTTP error! status: ${response.status}`\<close>. Interpolating a whole number
  prints it in decimal; \<open>show_nat\<close> and \<open>show_int\<close> are that rendering.
\<close>

definition digit_char :: "nat \<Rightarrow> char" where
  "digit_char d = ''0123456789'' ! (d mod 10)"

fun show_nat :: "nat \<Rightarrow> string" where
  "show_nat n = (if n < 10 then [digit_char n] else show_nat (n div 10) @ [digit_char n])"

declare show_nat.simps [simp del]

definition show_int :: "int \<Rightarrow> string" where
  "show_int i = (if i < 0 then CHR ''-'' # show_nat (nat (- i)) else show_nat (nat i))"

text \<open>
  JavaScript truthiness of an optional string (\<^verbatim>\<open>a || b\<close>, \<^verbatim>\<open>!a\<close>):
  \<^verbatim>\<open>undefined\<close> and the empty string are falsy.
\<close>

definition truthy :: "string option \<Rightarrow> bool" where
  "truthy s = (case s of None \<Rightarrow> False | Some t \<Rightarrow> t \<noteq> [])"

text \<open>\<^verbatim>\<open>a || b\<close> on optional strings: the left operand when it is truthy.\<close>

definition js_or :: "string option \<Rightarrow> string option \<Rightarrow> string option" where
  "js_or a b = (if truthy a then a else b)"

text \<open>\<^verbatim>\<open>a || 'literal'\<close> with a non-empty literal.\<close>

definition or_default :: "string option \<Rightarrow> string \<Rightarrow> string" where
  "or_default a d = (case a of None \<Rightarrow> d | Some t \<Rightarrow> if t \<noteq> [] then t else d)"

section \<open>The result envelope of the Remote Client\<close>

text \<open>
  \<^verbatim>\<open>interface ApiResponse<T> { success: boolean; data?: T; error?: string; message?: string }\<close>
  (caseStudiesApi.ts). An absent optional field is \<open>None\<close>.
\<close>

record 'd api_response =
  success :: bool
  data :: "'d option"
  error :: "string option"
  message :: "string option"

section \<open>Case studies and the local mirror\<close>

text \<open>
  A case study as the consistency layer sees it: the identifier, the icon name of the
  remote representation, the icon component of the local representation, the two
  timestamps, and the remaining domain fields (title, description, technologies, ...)
  kept together in \<open>payload\<close>, which no function below inspects. An icon component is
  identified by a number; the icon mapping \<^verbatim>\<open>Record<string, Component>\<close> is an
  association list in key order.
\<close>

type_synonym icon = nat

record case_study =
  cs_id :: string
  iconName :: "string option"
  icon :: "icon option"
  createdAt :: "string option"
  updatedAt :: "string option"
  payload :: string

type_synonym icon_mapping = "(string \<times> icon) list"

text \<open>
  \<^verbatim>\<open>this.iconMapping[name] || this.iconMapping['MessageSquare']\<close>. Indexing an object with
  \<^verbatim>\<open>undefined\<close> reads the property named "undefined"; a component is truthy.
\<close>

definition icon_for :: "icon_mapping \<Rightarrow> string option \<Rightarrow> icon option" where
  "icon_for m nm =
     (case map_of m (case nm of None \<Rightarrow> ''undefined'' | Some s \<Rightarrow> s) of
        Some c \<Rightarrow> Some c
      | None \<Rightarrow> map_of m ''MessageSquare'')"

text \<open>A thrown value: an \<^verbatim>\<open>Error\<close> with its message, or anything else.\<close>

datatype thrown = Error string | NonError

text \<open>
  What \<^verbatim>\<open>safeLocalStorage.getJSON<any[]>('allSolutions_cases')\<close> hands to
  \<open>getLocalCases\<close>: the call throws (\<open>Inl\<close>), or it returns (\<open>Inr\<close>) a falsy value
  (nothing stored), a truthy value that is not an array, or an array. An element of the
  array is an object or \<^verbatim>\<open>null\<close> (\<open>None\<close>).
\<close>

datatype stored = SNull | SNotArray | SArray "case_study option list"

text \<open>
  \<^verbatim>\<open>saved.map(study => ({...study, icon: this.iconMapping[study.iconName] || ...}))\<close>:
  reading \<^verbatim>\<open>study.iconName\<close> of a \<^verbatim>\<open>null\<close> element throws a TypeError, which is
  \<open>None\<close> here.
\<close>

fun map_saved :: "icon_mapping \<Rightarrow> case_study option list \<Rightarrow> case_study list option" where
  "map_saved m [] = Some []"
| "map_saved m (None # rest) = None"
| "map_saved m (Some study # rest) =
     (case map_saved m rest of
        None \<Rightarrow> None
      | Some out \<Rightarrow> Some (study\<lparr>icon := icon_for m (iconName study)\<rparr> # out))"

text \<open>
  \<^verbatim>\<open>CaseStudiesSync.getLocalCases\<close>: every failure inside the \<^verbatim>\<open>try\<close> block ends in
  \<^verbatim>\<open>return []\<close>.
\<close>

definition getLocalCases :: "icon_mapping \<Rightarrow> thrown + stored \<Rightarrow> case_study list" where
  "getLocalCases m saved =
     (case saved of
        Inl e \<Rightarrow> []
      | Inr SNull \<Rightarrow> []
      | Inr SNotArray \<Rightarrow> []
      | Inr (SArray xs) \<Rightarrow> (case map_saved m xs of None \<Rightarrow> [] | Some cases \<Rightarrow> cases))"

section \<open>Reconciliation Engine: the sync status\<close>

datatype recommendation = SyncToDb | SyncFromDb | NoSyncNeeded | Conflict

record side_status =
  count :: nat
  lastUpdated :: "string option"

record sync_status =
  local :: side_status
  database :: side_status
  recommendation :: recommendation

text \<open>
  \<^verbatim>\<open>new Date(c.updatedAt || c.createdAt || 0).getTime()\<close>. Parsing a date string is the
  host's; \<open>parse\<close> stands for it and gives \<open>None\<close> for an invalid date, whose time value
  is \<^verbatim>\<open>NaN\<close>. \<^verbatim>\<open>new Date(0).getTime()\<close> is 0.
\<close>

definition time_of :: "(string \<Rightarrow> int option) \<Rightarrow> case_study \<Rightarrow> int option" where
  "time_of parse c =
     (let d = js_or (updatedAt c) (createdAt c)
      in if truthy d then parse (or_default d []) else Some 0)"

text \<open>
  \<^verbatim>\<open>Math.max(...ts).toString()\<close> on a non-empty list: \<^verbatim>\<open>NaN\<close> as soon as one
  argument is \<^verbatim>\<open>NaN\<close>, the largest time otherwise. A time value is a whole number
  of at most 16 digits, which prints in decimal.
\<close>

fun max_times :: "int option list \<Rightarrow> int option" where
  "max_times [] = None"
| "max_times [t] = t"
| "max_times (t # u # rest) =
     (case (t, max_times (u # rest)) of
        (Some a, Some b) \<Rightarrow> Some (max a b)
      | _ \<Rightarrow> None)"

definition max_string :: "int option list \<Rightarrow> string" where
  "max_string ts = (case max_times ts of None \<Rightarrow> ''NaN'' | Some t \<Rightarrow> show_int t)"

text \<open>
  \<^verbatim>\<open>CaseStudiesSync.getSyncStatus\<close>, given what the local mirror read and
  \<^verbatim>\<open>caseStudiesApi.getAllCaseStudies()\<close> resolved to.
\<close>

definition getSyncStatus ::
  "(string \<Rightarrow> int option) \<Rightarrow> icon_mapping \<Rightarrow> thrown + stored \<Rightarrow>
   case_study list api_response \<Rightarrow> sync_status" where
  "getSyncStatus parse m saved dbResponse =
     (let localCases = getLocalCases m saved;
          loc = \<lparr> count = length localCases,
                  lastUpdated = (if length localCases > 0
                                 then Some (max_string (map (time_of parse) localCases))
                                 else None) \<rparr>;
          db = \<lparr> count = (if success dbResponse
                          then (case data dbResponse of Some rows \<Rightarrow> length rows | None \<Rightarrow> 0)
                          else 0),
                 lastUpdated = (if success dbResponse
                                then (case data dbResponse of
                                        Some rows \<Rightarrow>
                                          if length rows > 0
                                          then Some (max_string (map (time_of parse) rows))
                                          else None
                                      | None \<Rightarrow> None)
                                else None) \<rparr>;
          rec = (if count loc = 0 \<and> count db = 0 then NoSyncNeeded
                 else if count loc > 0 \<and> count db = 0 then SyncToDb
                 else if count loc = 0 \<and> count db > 0 then SyncFromDb
                 else if count loc \<noteq> count db then Conflict
                 else NoSyncNeeded)
      in \<lparr> local = loc, database = db, recommendation = rec \<rparr>)"

section \<open>Operation Monitor\<close>

text \<open>
  \<^verbatim>\<open>interface DbOperation\<close> of dbMonitor.ts. The fields are prefixed here because other
  records have fields of the same names; \<^verbatim>\<open>details\<close> (of type \<^verbatim>\<open>any\<close>, only
  printed) is left out.
\<close>

datatype op_type = OpRead | OpWrite | OpDelete | OpSync

record db_operation =
  op_id :: string
  op_type :: op_type
  op_timestamp :: int
  op_duration :: "int option"
  op_success :: bool
  op_recordCount :: "nat option"
  op_error :: "string option"

text \<open>The argument of \<open>logOperation\<close>: \<^verbatim>\<open>Omit<DbOperation, 'id' | 'timestamp'>\<close>.\<close>

record op_input =
  in_type :: op_type
  in_duration :: "int option"
  in_success :: bool
  in_recordCount :: "nat option"
  in_error :: "string option"

text \<open>\<^verbatim>\<open>private maxOperations = 100\<close>; the class never assigns it again.\<close>

definition maxOperations :: nat where
  "maxOperations = 100"

text \<open>
  \<^verbatim>\<open>generateId\<close>: \<^verbatim>\<open>`op_${Date.now()}_${Math.random().toString(36).substr(2, 9)}`\<close>.
  The clock reading and the random suffix come from the host.
\<close>

definition generateId :: "int \<Rightarrow> string \<Rightarrow> string" where
  "generateId now rnd = ''op_'' @ show_int now @ ''_'' @ rnd"

text \<open>
  \<^verbatim>\<open>DatabaseMonitor.logOperation\<close> on the \<^verbatim>\<open>operations\<close> array: \<^verbatim>\<open>unshift\<close> puts
  the new record first, \<^verbatim>\<open>slice(0, maxOperations)\<close> keeps the first hundred. The
  arguments \<open>idNow\<close>, \<open>rnd\<close> and \<open>now\<close> are the host's answers to \<^verbatim>\<open>Date.now()\<close> in
  \<^verbatim>\<open>generateId\<close>, \<^verbatim>\<open>Math.random()\<close> and \<^verbatim>\<open>Date.now()\<close> for the timestamp. The
  console output is not modelled.
\<close>

definition logOperation ::
  "int \<Rightarrow> string \<Rightarrow> int \<Rightarrow> op_input \<Rightarrow> db_operation list \<Rightarrow> string \<times> db_operation list" where
  "logOperation idNow rnd now operation operations =
     (let ident = generateId idNow rnd;
          logEntry = \<lparr> op_id = ident, op_type = in_type operation, op_timestamp = now,
                       op_duration = in_duration operation, op_success = in_success operation,
                       op_recordCount = in_recordCount operation,
                       op_error = in_error operation \<rparr>;
          unshifted = logEntry # operations
      in (ident, if length unshifted > maxOperations then take maxOperations unshifted
                 else unshifted))"

text \<open>
  \<^verbatim>\<open>Array.prototype.slice(0, limit)\<close> for a whole number \<open>limit\<close>: a negative limit
  counts from the end.
\<close>

definition slice0 :: "int \<Rightarrow> 'a list \<Rightarrow> 'a list" where
  "slice0 limit xs =
     (if limit < 0 then take (nat (int (length xs) + limit)) xs else take (nat limit) xs)"

definition getRecentOperations :: "int \<Rightarrow> db_operation list \<Rightarrow> db_operation list" where
  "getRecentOperations limit operations = slice0 limit operations"

text \<open>A run of \<open>logOperation\<close> calls, each with the host's three answers and its argument.\<close>

type_synonym log_call = "(int \<times> string \<times> int) \<times> op_input"

fun logOperations :: "log_call list \<Rightarrow> db_operation list \<Rightarrow> db_operation list" where
  "logOperations [] operations = operations"
| "logOperations (((idNow, rnd, now), operation) # calls) operations =
     logOperations calls (snd (logOperation idNow rnd now operation operations))"

text \<open>The record a call inserts.\<close>

definition entry_of :: "log_call \<Rightarrow> db_operation" where
  "entry_of c =
     (case c of ((idNow, rnd, now), operation) \<Rightarrow>
        \<lparr> op_id = generateId idNow rnd, op_type = in_type operation, op_timestamp = now,
          op_duration = in_duration operation, op_success = in_success operation,
          op_recordCount = in_recordCount operation, op_error = in_error operation \<rparr>)"

section \<open>Performance Recorder\<close>

text \<open>
  \<^verbatim>\<open>interface PerformanceMetric\<close> of performanceMonitor.ts, without \<^verbatim>\<open>metadata\<close>
  (stored, never read). Times are readings of \<^verbatim>\<open>performance.now()\<close> in
  milliseconds, taken here as real numbers.
\<close>

record perf_metric =
  pm_name :: string
  pm_startTime :: real
  pm_endTime :: "real option"
  pm_duration :: "real option"

definition maxMetrics :: nat where
  "maxMetrics = 100"

text \<open>
  \<^verbatim>\<open>PerformanceMonitor.startMeasure\<close>: \<^verbatim>\<open>push\<close>, then \<^verbatim>\<open>slice(-maxMetrics)\<close> keeps the
  last hundred. The result is \<^verbatim>\<open>`${name}_${metric.startTime}`\<close>; \<open>fmt\<close> stands for the
  host's rendering of a number in a template string.
\<close>

definition startMeasure ::
  "(real \<Rightarrow> string) \<Rightarrow> string \<Rightarrow> real \<Rightarrow> perf_metric list \<Rightarrow> string \<times> perf_metric list" where
  "startMeasure fmt nm now metrics =
     (let metric = \<lparr> pm_name = nm, pm_startTime = now, pm_endTime = None, pm_duration = None \<rparr>;
          pushed = metrics @ [metric]
      in (nm @ ''_'' @ fmt (pm_startTime metric),
          if length pushed > maxMetrics then drop (length pushed - maxMetrics) pushed
          else pushed))"

text \<open>\<^verbatim>\<open>!m.endTime\<close>: an absent end time and the number 0 are falsy.\<close>

definition not_ended :: "perf_metric \<Rightarrow> bool" where
  "not_ended m = (case pm_endTime m of None \<Rightarrow> True | Some t \<Rightarrow> t = 0)"

text \<open>\<^verbatim>\<open>Array.prototype.findIndex\<close>; \<open>None\<close> is the result \<^verbatim>\<open>-1\<close>.\<close>

fun findIndex :: "('a \<Rightarrow> bool) \<Rightarrow> 'a list \<Rightarrow> nat option" where
  "findIndex p [] = None"
| "findIndex p (x # xs) =
     (if p x then Some 0 else (case findIndex p xs of None \<Rightarrow> None | Some i \<Rightarrow> Some (Suc i)))"

text \<open>
  \<^verbatim>\<open>PerformanceMonitor.endMeasure(name)\<close>: \<^verbatim>\<open>null\<close> (\<open>None\<close>) when no metric of that
  name is open; otherwise the first such metric gets its end time and duration, and
  the duration is returned.
\<close>

definition endMeasure ::
  "string \<Rightarrow> real \<Rightarrow> perf_metric list \<Rightarrow> real option \<times> perf_metric list" where
  "endMeasure nm now metrics =
     (case findIndex (\<lambda>m. pm_name m = nm \<and> not_ended m) metrics of
        None \<Rightarrow> (None, metrics)
      | Some metricIndex \<Rightarrow>
          (let metric = metrics ! metricIndex;
               ended = metric\<lparr> pm_endTime := Some now,
                               pm_duration := Some (now - pm_startTime metric) \<rparr>
           in (pm_duration ended, metrics[metricIndex := ended])))"

section \<open>TTL Cache\<close>

text \<open>
  \<^verbatim>\<open>interface CacheItem<T> { data: T; timestamp: number; expiry: number }\<close> of
  apiCache.ts, and the \<^verbatim>\<open>Map<string, CacheItem<any>>\<close> that holds the items. Times
  are readings of \<^verbatim>\<open>Date.now()\<close>, whole milliseconds.
\<close>

record 'v cache_item =
  ci_data :: 'v
  ci_timestamp :: int
  expiry :: int

type_synonym 'v cache_map = "string \<Rightarrow> 'v cache_item option"

definition defaultTTL :: int where
  "defaultTTL = 5 * 60 * 1000"

text \<open>\<^verbatim>\<open>cleanup\<close>: every item with \<^verbatim>\<open>now > item.expiry\<close> is deleted.\<close>

definition cleanup :: "int \<Rightarrow> 'v cache_map \<Rightarrow> 'v cache_map" where
  "cleanup now c =
     (\<lambda>k. case c k of None \<Rightarrow> None
                     | Some item \<Rightarrow> if now > expiry item then None else Some item)"

text \<open>
  \<^verbatim>\<open>set(key, data, ttl)\<close>. The three readings of \<^verbatim>\<open>Date.now()\<close> in one call (two in
  \<^verbatim>\<open>set\<close>, one in \<^verbatim>\<open>cleanup\<close>) are one value \<open>now\<close> here.
\<close>

definition cache_set :: "string \<Rightarrow> 'v \<Rightarrow> int \<Rightarrow> int \<Rightarrow> 'v cache_map \<Rightarrow> 'v cache_map" where
  "cache_set key d ttl now c =
     cleanup now (c(key \<mapsto> \<lparr> ci_data = d, ci_timestamp = now, expiry = now + ttl \<rparr>))"

definition cache_get :: "string \<Rightarrow> int \<Rightarrow> 'v cache_map \<Rightarrow> 'v option \<times> 'v cache_map" where
  "cache_get key now c =
     (case c key of
        None \<Rightarrow> (None, c)
      | Some item \<Rightarrow> if now > expiry item then (None, c(key := None))
                     else (Some (ci_data item), c))"

definition cache_has :: "string \<Rightarrow> int \<Rightarrow> 'v cache_map \<Rightarrow> bool \<times> 'v cache_map" where
  "cache_has key now c =
     (case c key of
        None \<Rightarrow> (False, c)
      | Some item \<Rightarrow> if now > expiry item then (False, c(key := None)) else (True, c))"

definition cache_delete :: "string \<Rightarrow> 'v cache_map \<Rightarrow> bool \<times> 'v cache_map" where
  "cache_delete key c = (c key \<noteq> None, c(key := None))"

definition cache_clear :: "'v cache_map \<Rightarrow> 'v cache_map" where
  "cache_clear c = Map.empty"

text \<open>
  \<open>getOrFetch\<close> and \<open>refreshInBackground\<close> are asynchronous. JavaScript runs each of them
  without interruption up to its \<^verbatim>\<open>await fetchFn()\<close>, where \<^verbatim>\<open>fetchFn\<close> has been
  called and the function is suspended until the promise settles; the rest runs, again
  without interruption, when it does. The state of an \<^verbatim>\<open>ApiCache\<close> is therefore its
  map together with the background refreshes that are suspended at their \<^verbatim>\<open>await\<close>:
  for each one the key and the \<^verbatim>\<open>ttl\<close> its closure holds. The class itself keeps no
  record of them; \<open>refreshing\<close> is the part of the runtime's state (pending promises)
  that the properties of concurrent calls are about.
\<close>

record 'v api_cache =
  cache :: "'v cache_map"
  refreshing :: "(string \<times> int) list"

text \<open>
  \<^verbatim>\<open>refreshInBackground(key, fetchFn, ttl)\<close> up to its \<^verbatim>\<open>await\<close>: \<^verbatim>\<open>fetchFn\<close> is called,
  one more refresh is in flight.
\<close>

definition refreshInBackground :: "string \<Rightarrow> int \<Rightarrow> 'v api_cache \<Rightarrow> 'v api_cache" where
  "refreshInBackground key ttl s = s\<lparr> refreshing := refreshing s @ [(key, ttl)] \<rparr>"

text \<open>
  The rest of \<open>refreshInBackground\<close>, when the promise of \<^verbatim>\<open>fetchFn\<close> settles at time
  \<open>now\<close>: a resolved value is stored with \<^verbatim>\<open>set\<close>, a rejection is logged and dropped.
\<close>

definition refreshInBackground_settled ::
  "string \<Rightarrow> int \<Rightarrow> thrown + 'v \<Rightarrow> int \<Rightarrow> 'v api_cache \<Rightarrow> 'v api_cache" where
  "refreshInBackground_settled key ttl settled now s =
     (case settled of
        Inr d \<Rightarrow> s\<lparr> cache := cache_set key d ttl now (cache s),
                     refreshing := remove1 (key, ttl) (refreshing s) \<rparr>
      | Inl e \<Rightarrow> s\<lparr> refreshing := remove1 (key, ttl) (refreshing s) \<rparr>)"

text \<open>
  \<^verbatim>\<open>getOrFetch(key, fetchFn, ttl, refreshThreshold)\<close> up to its return or its
  \<^verbatim>\<open>await\<close>. With an item under the key (read straight from the map, with no expiry
  check) the call returns the item's data, after starting a background refresh when
  \<^verbatim>\<open>timeRemaining < refreshTime\<close>. With none, \<^verbatim>\<open>fetchFn\<close> is called and the call is
  suspended (\<open>Miss\<close>). The product \<^verbatim>\<open>ttl * refreshThreshold\<close> is taken in the reals.
\<close>

datatype 'v got = Hit 'v | Miss

definition getOrFetch ::
  "string \<Rightarrow> int \<Rightarrow> real \<Rightarrow> int \<Rightarrow> 'v api_cache \<Rightarrow> 'v got \<times> 'v api_cache" where
  "getOrFetch key ttl refreshThreshold now s =
     (case cache s key of
        Some cached \<Rightarrow>
          (let timeRemaining = expiry cached - now;
               refreshTime = real_of_int ttl * refreshThreshold
           in (Hit (ci_data cached),
               if real_of_int timeRemaining < refreshTime then refreshInBackground key ttl s
               else s))
      | None \<Rightarrow> (Miss, s))"

text \<open>
  The rest of a \<open>getOrFetch\<close> that missed, when the promise of \<^verbatim>\<open>fetchFn\<close> settles at
  time \<open>now\<close>: the value is stored and returned; a rejection leaves the \<^verbatim>\<open>async\<close>
  function by the exception (\<open>Inl\<close>).
\<close>

definition getOrFetch_settled ::
  "string \<Rightarrow> int \<Rightarrow> thrown + 'v \<Rightarrow> int \<Rightarrow> 'v api_cache \<Rightarrow> (thrown + 'v) \<times> 'v api_cache" where
  "getOrFetch_settled key ttl settled now s =
     (case settled of
        Inr d \<Rightarrow> (Inr d, s\<lparr> cache := cache_set key d ttl now (cache s) \<rparr>)
      | Inl e \<Rightarrow> (Inl e, s))"

text \<open>The default of the parameter \<^verbatim>\<open>refreshThreshold\<close>.\<close>

definition defaultRefreshThreshold :: real where
  "defaultRefreshThreshold = 8 / 10"

text \<open>\<^verbatim>\<open>CACHE_KEYS\<close> and \<^verbatim>\<open>CACHE_TTL\<close>.\<close>

definition CASE_STUDIES :: string where
  "CASE_STUDIES = ''case_studies''"

definition CASE_STUDY :: "string \<Rightarrow> string" where
  "CASE_STUDY ident = ''case_study_'' @ ident"

definition HOMEPAGE_SOLUTIONS :: string where
  "HOMEPAGE_SOLUTIONS = ''homepage_solutions''"

definition TTL_MEDIUM :: int where
  "TTL_MEDIUM = 5 * 60 * 1000"

section \<open>Remote Client\<close>

text \<open>
  What the host's \<^verbatim>\<open>fetch\<close> does with a request: it rejects (\<open>NetworkFailure\<close>, with
  the value it rejects with), or it resolves to a response with a status and a body.
  \<^verbatim>\<open>response.json()\<close> on the body rejects with a parse error (\<open>Unparseable\<close>, with the
  error's message) or resolves to the JSON value the remote store sent:
  \<^item> \<open>Json\<close>: a JSON object, read through the fields \<^verbatim>\<open>success\<close>, \<^verbatim>\<open>data\<close>,
    \<^verbatim>\<open>error\<close> and \<^verbatim>\<open>message\<close> of \<^verbatim>\<open>ApiResponse<T>\<close> (an absent \<^verbatim>\<open>success\<close> is
    falsy, that is \<open>False\<close>);
  \<^item> \<open>JsonNull\<close>: the value \<^verbatim>\<open>null\<close>. Reading a property of it throws a TypeError,
    whose message is the host's; the constructor carries that wording as a function
    of the property's name;
  \<^item> \<open>JsonBare\<close>: any other value, that is an array, a number, a string or a boolean,
    kept as its JSON text. None of the properties the client reads is defined on it.
  \<^verbatim>\<open>response.ok\<close> is the Fetch standard's: the status is in the range 200 to 299.
\<close>

datatype 'd body =
    Unparseable string
  | JsonNull "string \<Rightarrow> string"
  | JsonBare string
  | Json "'d api_response"

datatype 'd fetch_outcome = NetworkFailure thrown | Response nat "'d body"

definition ok :: "nat \<Rightarrow> bool" where
  "ok status = (200 \<le> status \<and> status \<le> 299)"

text \<open>
  What the promise of \<^verbatim>\<open>makeRequest\<close> resolves to: an object with the envelope's
  fields, or a JSON value that is not an object, returned as the remote store sent it.
\<close>

datatype 'd reply = Envelope "'d api_response" | Bare string

text \<open>
  \<^verbatim>\<open>result.success\<close> as a condition: the field of an envelope, \<^verbatim>\<open>undefined\<close> (falsy)
  on a value that is not an object.
\<close>

definition reply_success :: "'d reply \<Rightarrow> bool" where
  "reply_success r = (case r of Envelope e \<Rightarrow> success e | Bare t \<Rightarrow> False)"

text \<open>A request: the endpoint and the \<^verbatim>\<open>RequestInit\<close> fields the client sets.\<close>

record request =
  endpoint :: string
  http_method :: "string option"
  http_body :: "string option"

text \<open>
  \<^verbatim>\<open>errorData.error\<close> for \<^verbatim>\<open>errorData = await response.json().catch(() => ({}))\<close>:
  the empty object for an unparseable body, so the property is \<^verbatim>\<open>undefined\<close>; a
  TypeError (\<open>Inl\<close>) when the body is \<^verbatim>\<open>null\<close>; \<^verbatim>\<open>undefined\<close> on a value that is
  not an object.
\<close>

definition errorData_error :: "'d body \<Rightarrow> thrown + string option" where
  "errorData_error b =
     (case b of
        Unparseable msg \<Rightarrow> Inr None
      | JsonNull wording \<Rightarrow> Inl (Error (wording ''error''))
      | JsonBare t \<Rightarrow> Inr None
      | Json j \<Rightarrow> Inr (error j))"

definition http_error_message :: "nat \<Rightarrow> string" where
  "http_error_message status = ''HTTP error! status: '' @ show_nat status"

text \<open>
  The \<^verbatim>\<open>try\<close> block of \<^verbatim>\<open>makeRequest\<close>: \<open>Inl\<close> is a value thrown inside it. For a
  response that is not ok, \<^verbatim>\<open>errorData.error || `HTTP error! status: ${status}`\<close> is
  thrown as an \<^verbatim>\<open>Error\<close>. For one that is ok, \<^verbatim>\<open>data = await response.json()\<close> is
  returned after \<^verbatim>\<open>data.success\<close> has been read, which throws on \<^verbatim>\<open>null\<close>.
\<close>

definition request_attempt :: "'d fetch_outcome \<Rightarrow> thrown + 'd reply" where
  "request_attempt outcome =
     (case outcome of
        NetworkFailure e \<Rightarrow> Inl e
      | Response status b \<Rightarrow>
          if \<not> ok status then
            (case errorData_error b of
               Inl e \<Rightarrow> Inl e
             | Inr err \<Rightarrow> Inl (Error (or_default err (http_error_message status))))
          else
            (case b of
               Unparseable msg \<Rightarrow> Inl (Error msg)
             | JsonNull wording \<Rightarrow> Inl (Error (wording ''success''))
             | JsonBare t \<Rightarrow> Inr (Bare t)
             | Json d \<Rightarrow> Inr (Envelope d)))"

text \<open>
  \<^verbatim>\<open>perf.measureAsync\<close> and \<^verbatim>\<open>performanceMonitor.measureAsync\<close> around an
  asynchronous function: the timer is stopped and the result returned, or the
  exception thrown again.
\<close>

definition measureAsync :: "thrown + 'a \<Rightarrow> thrown + 'a" where
  "measureAsync settled = (case settled of Inr r \<Rightarrow> Inr r | Inl e \<Rightarrow> Inl e)"

text \<open>
  \<^verbatim>\<open>CaseStudiesApi.makeRequest\<close>: what the promise it returns settles to, \<open>Inr\<close> a
  resolved value and \<open>Inl\<close> a rejection. The \<^verbatim>\<open>catch\<close> block turns a thrown value
  into \<^verbatim>\<open>{ success: false, error: errorMessage }\<close>, which is \<open>failure errorMessage\<close>.
  The calls of \<^verbatim>\<open>dbMonitor\<close>, of the timers and of the console around the request
  change neither this value nor the cache; they are not part of this function's model.
\<close>

definition failure :: "string \<Rightarrow> 'd api_response" where
  "failure errorMessage =
     \<lparr> success = False, data = None, error = Some errorMessage, message = None \<rparr>"

definition makeRequest :: "request \<Rightarrow> 'd fetch_outcome \<Rightarrow> thrown + 'd reply" where
  "makeRequest req outcome =
     measureAsync
       (case request_attempt outcome of
          Inr d \<Rightarrow> Inr d
        | Inl e \<Rightarrow>
            (let errorMessage = (case e of Error msg \<Rightarrow> msg | NonError \<Rightarrow> ''Unknown error occurred'')
             in Inr (Envelope (failure errorMessage))))"

text \<open>
  The requests of the three calls modelled below: \<^verbatim>\<open>this.makeRequest('/casestudies')\<close>,
  \<^verbatim>\<open>this.makeRequest(`/casestudies/${id}`)\<close> and
  \<^verbatim>\<open>this.makeRequest(`/casestudies/${id}`, { method: 'PUT', body })\<close>.
\<close>

definition list_request :: request where
  "list_request = \<lparr> endpoint = ''/casestudies'', http_method = None, http_body = None \<rparr>"

definition item_request :: "string \<Rightarrow> request" where
  "item_request ident =
     \<lparr> endpoint = ''/casestudies/'' @ ident, http_method = None, http_body = None \<rparr>"

definition update_request :: "string \<Rightarrow> string \<Rightarrow> request" where
  "update_request ident patch =
     \<lparr> endpoint = ''/casestudies/'' @ ident, http_method = Some ''PUT'',
       http_body = Some patch \<rparr>"

text \<open>
  \<^verbatim>\<open>getAllCaseStudies\<close> and \<^verbatim>\<open>getCaseStudy(id)\<close>: \<open>getOrFetch\<close> under the read key with
  the medium TTL and the default threshold; the \<^verbatim>\<open>fetchFn\<close> is \<open>makeRequest\<close>. The
  second function of each pair is the continuation at the time the remote store's
  answer \<open>outcome\<close> is in.
\<close>

definition getAllCaseStudies ::
  "int \<Rightarrow> 'd reply api_cache \<Rightarrow> 'd reply got \<times> 'd reply api_cache" where
  "getAllCaseStudies now s = getOrFetch CASE_STUDIES TTL_MEDIUM defaultRefreshThreshold now s"

definition getAllCaseStudies_settled ::
  "'d fetch_outcome \<Rightarrow> int \<Rightarrow> 'd reply api_cache \<Rightarrow>
   (thrown + 'd reply) \<times> 'd reply api_cache" where
  "getAllCaseStudies_settled outcome now s =
     getOrFetch_settled CASE_STUDIES TTL_MEDIUM
       (makeRequest list_request outcome) now s"

definition getCaseStudy ::
  "string \<Rightarrow> int \<Rightarrow> 'd reply api_cache \<Rightarrow>
   'd reply got \<times> 'd reply api_cache" where
  "getCaseStudy ident now s =
     getOrFetch (CASE_STUDY ident) TTL_MEDIUM defaultRefreshThreshold now s"

definition getCaseStudy_settled ::
  "string \<Rightarrow> 'd fetch_outcome \<Rightarrow> int \<Rightarrow> 'd reply api_cache \<Rightarrow>
   (thrown + 'd reply) \<times> 'd reply api_cache" where
  "getCaseStudy_settled ident outcome now s =
     getOrFetch_settled (CASE_STUDY ident) TTL_MEDIUM
       (makeRequest (item_request ident) outcome) now s"

text \<open>
  A background refresh of one of the read keys, when the remote store's answer is in:
  its \<^verbatim>\<open>fetchFn\<close> is the same \<open>makeRequest\<close>.
\<close>

definition refresh_settled ::
  "string \<Rightarrow> request \<Rightarrow> 'd fetch_outcome \<Rightarrow> int \<Rightarrow> 'd reply api_cache \<Rightarrow>
   'd reply api_cache" where
  "refresh_settled key req outcome now s =
     refreshInBackground_settled key TTL_MEDIUM (makeRequest req outcome) now s"

text \<open>
  \<^verbatim>\<open>updateCaseStudy(id, caseStudy)\<close> from the point where the remote store's answer to
  the \<^verbatim>\<open>PUT\<close> is in: the result, then the three \<^verbatim>\<open>apiCache.delete\<close> calls under
  \<^verbatim>\<open>if (result.success)\<close>. \<open>patch\<close> is \<^verbatim>\<open>JSON.stringify(caseStudy)\<close>.
\<close>

definition updateCaseStudy ::
  "string \<Rightarrow> string \<Rightarrow> 'd fetch_outcome \<Rightarrow> 'd reply api_cache \<Rightarrow>
   (thrown + 'd reply) \<times> 'd reply api_cache" where
  "updateCaseStudy ident patch outcome s =
     (case measureAsync (makeRequest (update_request ident patch) outcome) of
        Inl e \<Rightarrow> (Inl e, s)
      | Inr result \<Rightarrow>
          if reply_success result then
            (let c1 = snd (cache_delete CASE_STUDIES (cache s));
                 c2 = snd (cache_delete (CASE_STUDY ident) c1);
                 c3 = snd (cache_delete HOMEPAGE_SOLUTIONS c2)
             in (Inr result, s\<lparr> cache := c3 \<rparr>))
          else (Inr result, s))"

section \<open>Reconciliation Engine: the sync operations\<close>

text \<open>
  What a sync run does to the outside, in order: the callbacks of \<^verbatim>\<open>SyncOptions\<close> it
  calls, and its input and output: \<open>ReadLocal\<close> is \<^verbatim>\<open>safeLocalStorage.getJSON\<close>,
  \<open>FetchAll\<close> is \<^verbatim>\<open>caseStudiesApi.getAllCaseStudies()\<close>, \<open>BulkUpdate\<close> is
  \<^verbatim>\<open>caseStudiesApi.bulkUpdateCaseStudies(apiCases)\<close>, \<open>SaveLocal\<close> is
  \<^verbatim>\<open>safeLocalStorage.setJSON\<close> and \<open>Dispatch\<close> the \<^verbatim>\<open>allSolutionsUpdated\<close> event.
\<close>

datatype event =
    Progress nat nat string
  | OnError string
  | OnSuccess string
  | ReadLocal
  | FetchAll
  | BulkUpdate "case_study list"
  | SaveLocal "case_study list"
  | Dispatch

text \<open>Which optional callbacks of \<^verbatim>\<open>SyncOptions\<close> the caller has supplied.\<close>

record sync_options =
  has_onProgress :: bool
  has_onError :: bool
  has_onSuccess :: bool

definition onProgress :: "sync_options \<Rightarrow> nat \<Rightarrow> nat \<Rightarrow> string \<Rightarrow> event list" where
  "onProgress opts current tot action =
     (if has_onProgress opts then [Progress current tot action] else [])"

definition onError :: "sync_options \<Rightarrow> string \<Rightarrow> event list" where
  "onError opts msg = (if has_onError opts then [OnError msg] else [])"

definition onSuccess :: "sync_options \<Rightarrow> string \<Rightarrow> event list" where
  "onSuccess opts msg = (if has_onSuccess opts then [OnSuccess msg] else [])"

text \<open>\<^verbatim>\<open>error instanceof Error ? error.message : 'Unknown error'\<close>.\<close>

definition errorMessage_of :: "thrown \<Rightarrow> string" where
  "errorMessage_of e = (case e of Error msg \<Rightarrow> msg | NonError \<Rightarrow> ''Unknown error'')"

text \<open>\<^verbatim>\<open>apiToLocal\<close>: the remote record with its icon component added.\<close>

definition apiToLocal :: "icon_mapping \<Rightarrow> case_study \<Rightarrow> case_study" where
  "apiToLocal m apiCase = apiCase\<lparr> icon := icon_for m (iconName apiCase) \<rparr>"

text \<open>
  \<^verbatim>\<open>Object.keys(this.iconMapping).find(key => this.iconMapping[key] === c.icon)
  || 'MessageSquare'\<close>.
\<close>

definition iconName_for :: "icon_mapping \<Rightarrow> icon option \<Rightarrow> string" where
  "iconName_for m ic = or_default (find (\<lambda>key. map_of m key = ic) (map fst m)) ''MessageSquare''"

text \<open>
  The record \<open>syncToDatabase\<close> uploads: \<^verbatim>\<open>{...this.localToApi(localCase), id, createdAt,
  updatedAt}\<close>. \<^verbatim>\<open>localToApi\<close> copies the domain fields and the icon name; the icon
  component is not among them.
\<close>

definition localToApi :: "icon_mapping \<Rightarrow> case_study \<Rightarrow> case_study" where
  "localToApi m localCase =
     localCase\<lparr> iconName := Some (iconName_for m (icon localCase)), icon := None \<rparr>"

text \<open>
  \<^verbatim>\<open>saveLocalCases\<close>, given what \<^verbatim>\<open>safeLocalStorage.setJSON\<close> does with the write
  (it returns a success flag, or throws).
\<close>

definition saveLocalCases ::
  "icon_mapping \<Rightarrow> case_study list \<Rightarrow> thrown + bool \<Rightarrow> event list \<times> (thrown + unit)" where
  "saveLocalCases m cases written =
     (let casesToSave = map (\<lambda>study. study\<lparr> iconName := Some (iconName_for m (icon study)) \<rparr>) cases
      in case written of
           Inl e \<Rightarrow> ([SaveLocal casesToSave], Inl e)
         | Inr flag \<Rightarrow>
             if \<not> flag then ([SaveLocal casesToSave], Inl (Error ''Failed to save to localStorage''))
             else ([SaveLocal casesToSave, Dispatch], Inr ()))"

text \<open>
  \<^verbatim>\<open>syncFromDatabase(options)\<close>, given the answer \<open>response\<close> of
  \<^verbatim>\<open>getAllCaseStudies()\<close> and what the local write does. The result is the list of
  events and the settled promise (\<open>Inl\<close>: rejected with the value thrown again by the
  \<^verbatim>\<open>catch\<close> block).
\<close>

definition syncFromDatabase ::
  "sync_options \<Rightarrow> icon_mapping \<Rightarrow> case_study list api_response \<Rightarrow> thrown + bool \<Rightarrow>
   event list \<times> (thrown + case_study list)" where
  "syncFromDatabase opts m response written =
     (let started = onProgress opts 0 1 ''Connecting to database...'' @ [FetchAll];
          failed = (\<lambda>evs e.
            (evs @ onError opts (''Failed to sync from database: '' @ errorMessage_of e), Inl e))
      in if \<not> success response \<or> data response = None
         then failed started (Error (or_default (error response) ''Failed to fetch from database''))
         else
           (let localCases = map (apiToLocal m) (case data response of Some rows \<Rightarrow> rows | None \<Rightarrow> []);
                converted = started @ onProgress opts 1 2 ''Converting data format...''
                              @ onProgress opts 2 2 ''Saving to local storage...''
            in case saveLocalCases m localCases written of
                 (evs, Inl e) \<Rightarrow> failed (converted @ evs) e
               | (evs, Inr u) \<Rightarrow>
                   (converted @ evs
                      @ onSuccess opts (''Successfully synced '' @ show_nat (length localCases)
                                          @ '' case studies from database''),
                    Inr localCases)))"

text \<open>
  \<^verbatim>\<open>syncToDatabase(options)\<close>, given what the local mirror holds and the answer \<open>bulk\<close>
  of \<^verbatim>\<open>bulkUpdateCaseStudies\<close>.
\<close>

definition syncToDatabase ::
  "sync_options \<Rightarrow> icon_mapping \<Rightarrow> thrown + stored \<Rightarrow> case_study list api_response \<Rightarrow>
   event list \<times> (thrown + case_study list)" where
  "syncToDatabase opts m saved bulk =
     (let localCases = getLocalCases m saved;
          n = length localCases
      in if n = 0 then ([ReadLocal] @ onError opts ''No local case studies to sync'', Inr [])
         else
           (let apiCases = map (localToApi m) localCases;
                uploaded = [ReadLocal] @ onProgress opts 0 (n + 1) ''Preparing data...''
                             @ onProgress opts 1 (n + 1) ''Uploading to database...''
                             @ [BulkUpdate apiCases]
            in if \<not> success bulk \<or> data bulk = None
               then (let e = Error (or_default (error bulk) ''Failed to upload to database'')
                     in (uploaded @ onError opts (''Failed to sync to database: '' @ errorMessage_of e),
                         Inl e))
               else (uploaded @ onProgress opts (n + 1) (n + 1) ''Sync complete''
                       @ onSuccess opts (''Successfully synced '' @ show_nat (length apiCases)
                                           @ '' case studies to database''),
                     Inr (case data bulk of Some rows \<Rightarrow> rows | None \<Rightarrow> []))))"

text \<open>
  What the outside answers during one \<open>autoSync\<close> run: the content of the local mirror
  (which nothing else writes during the run), the answer of \<^verbatim>\<open>getAllCaseStudies()\<close>
  to \<open>autoSync\<close> itself and its answer to the \<open>syncFromDatabase\<close> that \<open>autoSync\<close> may
  call, the answer of the bulk update, and what the local write does.
\<close>

record sync_world =
  w_saved :: "thrown + stored"
  w_all :: "case_study list api_response"
  w_all_again :: "case_study list api_response"
  w_bulk :: "case_study list api_response"
  w_written :: "thrown + bool"

text \<open>
  \<^verbatim>\<open>dbResponse.success && dbResponse.data && dbResponse.data.length > 0\<close>: the remote
  collection was read and is not empty.
\<close>

definition has_rows :: "case_study list api_response \<Rightarrow> bool" where
  "has_rows r = (success r \<and> (case data r of None \<Rightarrow> False | Some rows \<Rightarrow> length rows > 0))"

text \<open>
  \<^verbatim>\<open>!dbResponse.success || !dbResponse.data || dbResponse.data.length === 0\<close>: the
  remote collection could not be read or is empty.
\<close>

definition no_rows :: "case_study list api_response \<Rightarrow> bool" where
  "no_rows r = (\<not> success r \<or> (case data r of None \<Rightarrow> True | Some rows \<Rightarrow> length rows = 0))"

text \<open>
  \<^verbatim>\<open>autoSync(options)\<close>. The inner syncs run with \<^verbatim>\<open>{...options, onProgress:
  undefined}\<close>. The result is \<^verbatim>\<open>{ direction, cases }\<close>, or the rejection thrown again
  by the \<^verbatim>\<open>catch\<close> block after \<^verbatim>\<open>onError\<close>.
\<close>

definition autoSync ::
  "sync_options \<Rightarrow> icon_mapping \<Rightarrow> sync_world \<Rightarrow>
   event list \<times> (thrown + string \<times> case_study list)" where
  "autoSync opts m w =
     (let inner = opts\<lparr> has_onProgress := False \<rparr>;
          localCases = getLocalCases m (w_saved w);
          dbResponse = w_all w;
          compared = onProgress opts 0 3 ''Analyzing sync requirements...'' @ [ReadLocal, FetchAll]
                       @ onProgress opts 1 3 ''Comparing data sources...'';
          failed = (\<lambda>evs e. (evs @ onError opts (''Auto-sync failed: '' @ errorMessage_of e), Inl e))
      in if no_rows dbResponse \<and> length localCases > 0 then
           (let before = compared @ onProgress opts 2 3 ''Syncing local data to database...''
            in case syncToDatabase inner m (w_saved w) (w_bulk w) of
                 (evs, Inl e) \<Rightarrow> failed (before @ evs) e
               | (evs, Inr uploaded) \<Rightarrow>
                   (before @ evs @ onSuccess opts ''Auto-sync: Uploaded local data to database'',
                    Inr (''toDb'', localCases)))
         else if length localCases = 0 \<and> has_rows dbResponse then
           (let before = compared @ onProgress opts 2 3 ''Syncing database to local...''
            in case syncFromDatabase inner m (w_all_again w) (w_written w) of
                 (evs, Inl e) \<Rightarrow> failed (before @ evs) e
               | (evs, Inr syncedCases) \<Rightarrow>
                   (before @ evs @ onSuccess opts ''Auto-sync: Downloaded data from database'',
                    Inr (''fromDb'', syncedCases)))
         else if has_rows dbResponse then
           (let before = compared @ onProgress opts 2 3 ''Syncing database to local...''
            in case syncFromDatabase inner m (w_all_again w) (w_written w) of
                 (evs, Inl e) \<Rightarrow> failed (before @ evs) e
               | (evs, Inr syncedCases) \<Rightarrow>
                   (before @ evs
                      @ onSuccess opts ''Auto-sync: Synced from database (source of truth)'',
                    Inr (''fromDb'', syncedCases)))
         else
           (compared @ onProgress opts 3 3 ''Using local data...''
              @ onSuccess opts ''Auto-sync: Using local data (no database data available)'',
            Inr (''local'', localCases)))"

text \<open>The input and output among the events of a run.\<close>

fun is_io :: "event \<Rightarrow> bool" where
  "is_io (Progress c t a) = False"
| "is_io (OnError msg) = False"
| "is_io (OnSuccess msg) = False"
| "is_io ev = True"

definition io_of :: "event list \<Rightarrow> event list" where
  "io_of evs = filter is_io evs"

section \<open>Observations and example inputs\<close>

text \<open>
  The definitions of this section are not part of the program. They name what the
  properties below observe in a state or a run, and the concrete records, calls and
  states at which the properties are instantiated.
\<close>

text \<open>
  The local-mirror reads the Reconciliation Engine treats as an empty collection:
  reading throws, nothing is stored, the stored value is not an array, or mapping the
  array throws at a \<^verbatim>\<open>null\<close> element.
\<close>

definition read_failed :: "thrown + stored \<Rightarrow> bool" where
  "read_failed saved =
     (case saved of
        Inl e \<Rightarrow> True
      | Inr SNull \<Rightarrow> True
      | Inr SNotArray \<Rightarrow> True
      | Inr (SArray xs) \<Rightarrow> None \<in> set xs)"

text \<open>A metric of the given name is open: \<open>endMeasure\<close> of that name would find one.\<close>

definition open_named :: "string \<Rightarrow> perf_metric list \<Rightarrow> bool" where
  "open_named nm metrics = (findIndex (\<lambda>m. pm_name m = nm \<and> not_ended m) metrics \<noteq> None)"

text \<open>The number of background refreshes of a key that are in flight.\<close>

definition in_flight :: "string \<Rightarrow> 'v api_cache \<Rightarrow> nat" where
  "in_flight key s = length (filter (\<lambda>p. fst p = key) (refreshing s))"

text \<open>
  The refresh test of \<open>getOrFetch\<close> fires: an item is under the key and
  \<^verbatim>\<open>timeRemaining < refreshTime\<close> holds for it.
\<close>

definition refresh_due :: "string \<Rightarrow> int \<Rightarrow> real \<Rightarrow> int \<Rightarrow> 'v api_cache \<Rightarrow> bool" where
  "refresh_due key ttl refreshThreshold now s =
     (case cache s key of
        None \<Rightarrow> False
      | Some cached \<Rightarrow> real_of_int (expiry cached - now) < real_of_int ttl * refreshThreshold)"

text \<open>
  Several \<open>getOrFetch\<close> calls for one key at the given times, one after the other,
  with no refresh settling in between.
\<close>

fun getOrFetch_calls ::
  "string \<Rightarrow> int \<Rightarrow> real \<Rightarrow> int list \<Rightarrow> 'v api_cache \<Rightarrow> 'v api_cache" where
  "getOrFetch_calls key ttl thr [] s = s"
| "getOrFetch_calls key ttl thr (now # later) s =
     getOrFetch_calls key ttl thr later (snd (getOrFetch key ttl thr now s))"

text \<open>
  The records that \<open>syncFromDatabase\<close> writes to the local mirror for a response:
  \<open>apiToLocal\<close> of each row, then the icon name \<open>saveLocalCases\<close> adds.
\<close>

definition converted_rows :: "icon_mapping \<Rightarrow> case_study list api_response \<Rightarrow> case_study list" where
  "converted_rows m response =
     map (\<lambda>study. study\<lparr> iconName := Some (iconName_for m (icon study)) \<rparr>)
       (map (apiToLocal m) (case data response of Some rows \<Rightarrow> rows | None \<Rightarrow> []))"

text \<open>Example inputs.\<close>

definition example_case :: case_study where
  "example_case = \<lparr> cs_id = ''cs-1'', iconName = Some ''Bot'', icon = None,
                     createdAt = Some ''2024-01-01T00:00:00.000Z'', updatedAt = None,
                     payload = ''{}'' \<rparr>"

definition rows_response :: "case_study list \<Rightarrow> case_study list api_response" where
  "rows_response rows = \<lparr> success = True, data = Some rows, error = None, message = None \<rparr>"

definition not_found :: "case_study list api_response" where
  "not_found = failure ''Case study not found''"

definition offline :: "case_study list fetch_outcome" where
  "offline = NetworkFailure (Error ''Failed to fetch'')"

definition example_op :: op_input where
  "example_op = \<lparr> in_type = OpRead, in_duration = Some 12, in_success = True,
                   in_recordCount = Some 1, in_error = None \<rparr>"

definition example_calls :: "log_call list" where
  "example_calls = map (\<lambda>i. ((int i, ''x7k2'', int i), example_op)) [0..<101]"

text \<open>A clock reading that is a whole number prints as its decimal digits.\<close>

definition fmt_whole :: "real \<Rightarrow> string" where
  "fmt_whole t = show_int \<lfloor>t\<rfloor>"

definition empty_cache :: "'v api_cache" where
  "empty_cache = \<lparr> cache = Map.empty, refreshing = [] \<rparr>"

text \<open>A cache whose only item was stored at time 0 with a TTL of five minutes.\<close>

definition stale_entry :: "string api_cache" where
  "stale_entry =
     \<lparr> cache = cache_set ''case_studies'' ''v1'' 300000 0 Map.empty, refreshing = [] \<rparr>"

text \<open>A cache that holds the list, the item \<open>cs-1\<close> and the homepage subset.\<close>

definition warm_cache :: "case_study list reply api_cache" where
  "warm_cache =
     \<lparr> cache = [CASE_STUDIES \<mapsto> \<lparr> ci_data = Envelope (rows_response [example_case]),
                                    ci_timestamp = 0, expiry = 300000 \<rparr>,
                 CASE_STUDY ''cs-1'' \<mapsto> \<lparr> ci_data = Envelope (rows_response [example_case]),
                                          ci_timestamp = 0, expiry = 300000 \<rparr>,
                 HOMEPAGE_SOLUTIONS \<mapsto> \<lparr> ci_data = Envelope (rows_response [example_case]),
                                          ci_timestamp = 0, expiry = 300000 \<rparr>],
       refreshing = [] \<rparr>"

text \<open>The record \<open>cs-1\<close> after an update, and the remote store's answer to that update.\<close>

definition updated_case :: case_study where
  "updated_case = example_case\<lparr> updatedAt := Some ''2024-06-01T00:00:00.000Z'',
                                 payload := ''{title: new}'' \<rparr>"

definition update_accepted :: "case_study list fetch_outcome" where
  "update_accepted = Response 200 (Json (rows_response [updated_case]))"

text \<open>The remote store's answer to a list request it served before the update.\<close>

definition answer_before_update :: "case_study list fetch_outcome" where
  "answer_before_update = Response 200 (Json (rows_response [example_case]))"

text \<open>
  The wording of one engine (V8) for the TypeError of reading a property of
  \<^verbatim>\<open>null\<close>; the character 0x27 is the single quote.
\<close>

definition v8_wording :: "string \<Rightarrow> string" where
  "v8_wording property =
     ''Cannot read properties of null (reading '' @ [CHR 0x27] @ property @ [CHR 0x27] @ '')''"

text \<open>The cache after a \<open>getAllCaseStudies\<close> that missed at time 0 while offline.\<close>

definition after_failed_read :: "case_study list reply api_cache" where
  "after_failed_read = snd (getAllCaseStudies_settled offline 0 empty_cache)"

definition stored_two :: "thrown + stored" where
  "stored_two = Inr (SArray [Some example_case, Some example_case])"

definition push_world :: sync_world where
  "push_world = \<lparr> w_saved = stored_two, w_all = failure ''Failed to fetch'',
                   w_all_again = failure ''Failed to fetch'',
                   w_bulk = rows_response [example_case, example_case], w_written = Inr True \<rparr>"

definition pull_world :: sync_world where
  "pull_world = \<lparr> w_saved = stored_two, w_all = rows_response [example_case],
                   w_all_again = rows_response [example_case],
                   w_bulk = failure ''not asked'', w_written = Inr True \<rparr>"

definition idle_world :: sync_world where
  "idle_world = \<lparr> w_saved = Inr SNull, w_all = rows_response [],
                   w_all_again = rows_response [],
                   w_bulk = failure ''not asked'', w_written = Inr True \<rparr>"

definition all_callbacks :: sync_options where
  "all_callbacks = \<lparr> has_onProgress = True, has_onError = True, has_onSuccess = True \<rparr>"

section \<open>Properties of the sync status\<close>

lemma map_saved_None: "None \<in> set xs \<Longrightarrow> map_saved m xs = None"
  by (induction m xs rule: map_saved.induct) (auto split: option.splits)

lemma getLocalCases_failed: "read_failed saved \<Longrightarrow> getLocalCases m saved = []"
  by (auto simp: read_failed_def getLocalCases_def map_saved_None split: sum.splits stored.splits)

text \<open>
  Claim C5. The recommendation of \<open>getSyncStatus\<close> is a function of the two counts it
  reports, the length \<open>L\<close> of the local collection and the length \<open>R\<close> of the remote
  one (0 when the remote read failed): \<open>noSyncNeeded\<close> if both are 0 or \<open>L = R\<close>,
  \<open>syncToDb\<close> if \<open>L > 0\<close> and \<open>R = 0\<close>, \<open>syncFromDb\<close> if \<open>L = 0\<close> and \<open>R > 0\<close>, and
  \<open>conflict\<close> if both are positive and differ.
\<close>

theorem status_classification:
  "(let st = getSyncStatus parse m saved resp;
        L = count (local st); R = count (database st)
    in L = length (getLocalCases m saved) \<and>
       R = (if success resp then (case data resp of Some rows \<Rightarrow> length rows | None \<Rightarrow> 0) else 0) \<and>
       (L = 0 \<and> R = 0 \<or> L = R \<longrightarrow> recommendation st = NoSyncNeeded) \<and>
       (L > 0 \<and> R = 0 \<longrightarrow> recommendation st = SyncToDb) \<and>
       (L = 0 \<and> R > 0 \<longrightarrow> recommendation st = SyncFromDb) \<and>
       (L > 0 \<and> R > 0 \<and> L \<noteq> R \<longrightarrow> recommendation st = Conflict))"
  by (auto simp add: getSyncStatus_def Let_def)

theorem status_classification_witness:
  "recommendation (getSyncStatus Map.empty [] (Inr SNull) (rows_response [])) = NoSyncNeeded \<and>
   recommendation (getSyncStatus Map.empty [] (Inr (SArray [Some example_case]))
                     (rows_response [example_case])) = NoSyncNeeded \<and>
   recommendation (getSyncStatus Map.empty [] (Inr (SArray [Some example_case, Some example_case]))
                     (rows_response [])) = SyncToDb \<and>
   recommendation (getSyncStatus Map.empty [] (Inr SNull)
                     (rows_response [example_case])) = SyncFromDb \<and>
   recommendation (getSyncStatus Map.empty [] (Inr (SArray [Some example_case]))
                     (rows_response [example_case, example_case])) = Conflict"
  using status_classification [of Map.empty "[]" "Inr SNull" "rows_response []"]
    status_classification [of Map.empty "[]" "Inr (SArray [Some example_case])"
      "rows_response [example_case]"]
    status_classification [of Map.empty "[]" "Inr (SArray [Some example_case, Some example_case])"
      "rows_response []"]
    status_classification [of Map.empty "[]" "Inr SNull" "rows_response [example_case]"]
    status_classification [of Map.empty "[]" "Inr (SArray [Some example_case])"
      "rows_response [example_case, example_case]"]
  by (simp add: Let_def getLocalCases_def rows_response_def)

text \<open>
  Claim C9. When the read of the local mirror fails (reading throws, nothing is stored,
  the stored value is not an array, or mapping it throws), \<open>getLocalCases\<close> returns the
  empty list and \<open>getSyncStatus\<close> reports the local count 0 with no timestamp; nothing
  is thrown.
\<close>

theorem storage_corruption_fail_open:
  "read_failed saved \<Longrightarrow>
     getLocalCases m saved = [] \<and>
     local (getSyncStatus parse m saved resp) = \<lparr> count = 0, lastUpdated = None \<rparr>"
  by (simp add: getLocalCases_failed getSyncStatus_def Let_def)

theorem storage_corruption_fail_open_witness:
  "read_failed (Inl (Error ''Unexpected token < in JSON'')) \<and>
   getLocalCases [] (Inl (Error ''Unexpected token < in JSON'')) = [] \<and>
   local (getSyncStatus Map.empty [] (Inl (Error ''Unexpected token < in JSON''))
            (rows_response [example_case])) = \<lparr> count = 0, lastUpdated = None \<rparr> \<and>
   read_failed (Inr SNull) \<and>
   getLocalCases [] (Inr SNull) = [] \<and>
   local (getSyncStatus Map.empty [] (Inr SNull) (rows_response [example_case])) =
     \<lparr> count = 0, lastUpdated = None \<rparr> \<and>
   read_failed (Inr SNotArray) \<and>
   getLocalCases [] (Inr SNotArray) = [] \<and>
   local (getSyncStatus Map.empty [] (Inr SNotArray) (rows_response [example_case])) =
     \<lparr> count = 0, lastUpdated = None \<rparr> \<and>
   read_failed (Inr (SArray [Some example_case, None])) \<and>
   getLocalCases [] (Inr (SArray [Some example_case, None])) = [] \<and>
   local (getSyncStatus Map.empty [] (Inr (SArray [Some example_case, None]))
            (rows_response [example_case])) = \<lparr> count = 0, lastUpdated = None \<rparr>"
  using storage_corruption_fail_open [of "Inl (Error ''Unexpected token < in JSON'')" "[]"
      Map.empty "rows_response [example_case]"]
    storage_corruption_fail_open [of "Inr SNull" "[]" Map.empty "rows_response [example_case]"]
    storage_corruption_fail_open [of "Inr SNotArray" "[]" Map.empty "rows_response [example_case]"]
    storage_corruption_fail_open [of "Inr (SArray [Some example_case, None])" "[]" Map.empty
      "rows_response [example_case]"]
  by (simp add: read_failed_def)

section \<open>Properties of the Operation Monitor\<close>

lemma logOperation_snd:
  "snd (logOperation idNow rnd now operation ops) =
     take maxOperations (entry_of ((idNow, rnd, now), operation) # ops)"
  by (simp add: logOperation_def entry_of_def Let_def)

lemma take_append_take: "take n (xs @ take n ys) = take n (xs @ ys)"
  by (induction xs arbitrary: n) (auto simp: take_Cons split: nat.splits)

lemma logOperations_eq:
  assumes "length ops \<le> maxOperations"
  shows "logOperations cs ops = take maxOperations (rev (map entry_of cs) @ ops)"
  using assms
proof (induction cs arbitrary: ops)
  case Nil
  then show ?case by simp
next
  case (Cons c cs)
  obtain idNow rnd now operation where c: "c = ((idNow, rnd, now), operation)"
    by (metis prod.exhaust)
  have "logOperations (c # cs) ops =
          logOperations cs (take maxOperations (entry_of c # ops))"
    by (simp add: c logOperation_snd)
  also have "\<dots> = take maxOperations (rev (map entry_of cs) @ take maxOperations (entry_of c # ops))"
    by (rule Cons.IH) simp
  also have "\<dots> = take maxOperations (rev (map entry_of cs) @ entry_of c # ops)"
    by (rule take_append_take)
  finally show ?case by simp
qed

lemma take_rev_tl: "length xs = Suc n \<Longrightarrow> take n (rev xs) = rev (tl xs)"
  by (cases xs) auto

lemma example_calls_distinct: "distinct (map entry_of example_calls)"
proof -
  have "inj_on (\<lambda>i. entry_of ((int i, ''x7k2'', int i), example_op)) (set [0..<101])"
    by (rule inj_onI) (simp add: entry_of_def)
  then show ?thesis
    by (simp add: example_calls_def distinct_map comp_def)
qed

text \<open>
  Claim C8. After any sequence of \<open>logOperation\<close> calls on a new monitor, the
  operations list holds at most 100 records, newest first: it is the first hundred of
  the inserted records in reverse order of insertion, and \<open>getRecentOperations(100)\<close>
  returns exactly that. After 101 insertions the list is records 101 down to 2, so the
  oldest record is not in it.
\<close>

theorem ring_buffer_invariant:
  "length (logOperations cs []) \<le> 100 \<and>
   logOperations cs [] = take 100 (rev (map entry_of cs)) \<and>
   getRecentOperations 100 (logOperations cs []) = take 100 (rev (map entry_of cs)) \<and>
   (length cs = 101 \<longrightarrow>
      getRecentOperations 100 (logOperations cs []) = rev (map entry_of (tl cs)) \<and>
      (distinct (map entry_of cs) \<longrightarrow>
         entry_of (hd cs) \<notin> set (getRecentOperations 100 (logOperations cs []))))"
proof -
  have eq: "logOperations cs [] = take 100 (rev (map entry_of cs))"
    using logOperations_eq [of "[]" cs] by (simp add: maxOperations_def)
  have len: "length (logOperations cs []) \<le> 100"
    by (simp add: eq)
  have recent: "getRecentOperations 100 (logOperations cs []) = take 100 (rev (map entry_of cs))"
    by (simp add: getRecentOperations_def slice0_def eq)
  have full: "getRecentOperations 100 (logOperations cs []) = rev (map entry_of (tl cs))"
    if "length cs = 101"
  proof -
    have "take 100 (rev (map entry_of cs)) = rev (tl (map entry_of cs))"
      by (rule take_rev_tl) (simp add: that)
    then show ?thesis by (simp add: recent map_tl)
  qed
  have excl: "entry_of (hd cs) \<notin> set (getRecentOperations 100 (logOperations cs []))"
    if "length cs = 101" "distinct (map entry_of cs)"
  proof -
    from that(1) obtain c rest where cs: "cs = c # rest" by (cases cs) auto
    with that(2) have "entry_of c \<notin> set (map entry_of rest)" by simp
    then show ?thesis using full [OF that(1)] by (simp add: cs)
  qed
  show ?thesis using eq len recent full excl by blast
qed

theorem ring_buffer_invariant_witness:
  "length example_calls = 101 \<and> distinct (map entry_of example_calls) \<and>
   getRecentOperations 100 (logOperations example_calls []) =
     rev (map entry_of (tl example_calls)) \<and>
   entry_of (hd example_calls) \<notin> set (getRecentOperations 100 (logOperations example_calls []))"
proof -
  have len: "length example_calls = 101"
    by (simp add: example_calls_def)
  show ?thesis
    using ring_buffer_invariant [of example_calls] example_calls_distinct len by blast
qed

section \<open>Properties of the Performance Recorder\<close>

lemma findIndex_None: "findIndex p xs = None \<longleftrightarrow> list_all (\<lambda>x. \<not> p x) xs"
  by (induction xs) (auto split: option.splits)

lemma findIndex_append_last:
  "findIndex p xs = None \<Longrightarrow> p x \<Longrightarrow> findIndex p (xs @ [x]) = Some (length xs)"
  by (induction xs) (auto split: option.splits if_splits)

lemma findIndex_subset_None:
  "findIndex p xs = None \<Longrightarrow> set ys \<subseteq> set xs \<Longrightarrow> findIndex p ys = None"
  by (auto simp: findIndex_None list_all_iff)

lemma findIndex_Some_append: "p x \<Longrightarrow> findIndex p (xs @ [x]) \<noteq> None"
  by (simp add: findIndex_None)

lemma startMeasure_snd:
  "\<exists>kept. set kept \<subseteq> set metrics \<and>
      snd (startMeasure fmt nm t0 metrics) =
        kept @ [\<lparr> pm_name = nm, pm_startTime = t0, pm_endTime = None, pm_duration = None \<rparr>]"
proof (cases "length metrics + 1 > maxMetrics")
  case True
  then have "snd (startMeasure fmt nm t0 metrics) =
      drop (Suc (length metrics) - maxMetrics) metrics
        @ [\<lparr> pm_name = nm, pm_startTime = t0, pm_endTime = None, pm_duration = None \<rparr>]"
    by (auto simp: startMeasure_def Let_def maxMetrics_def)
  then show ?thesis
    by (intro exI [of _ "drop (Suc (length metrics) - maxMetrics) metrics"])
       (simp add: set_drop_subset)
next
  case False
  then show ?thesis
    by (intro exI [of _ metrics]) (auto simp: startMeasure_def Let_def)
qed

lemma startMeasure_example:
  "startMeasure fmt_whole ''sync'' 5 [] =
     (''sync_5'',
      [\<lparr> pm_name = ''sync'', pm_startTime = 5, pm_endTime = None, pm_duration = None \<rparr>])"
proof -
  have "show_int 5 = ''5''" by code_simp
  then show ?thesis
    by (simp add: startMeasure_def fmt_whole_def Let_def maxMetrics_def)
qed

lemma findIndex_Some:
  "findIndex p xs = Some i \<Longrightarrow> i < length xs \<and> p (xs ! i) \<and> (\<forall>j<i. \<not> p (xs ! j))"
proof (induction xs arbitrary: i)
  case Nil
  then show ?case by simp
next
  case (Cons x xs)
  show ?case
  proof (cases "p x")
    case True
    with Cons.prems show ?thesis by simp
  next
    case False
    with Cons.prems obtain k where k: "findIndex p xs = Some k" and i: "i = Suc k"
      by (auto split: option.splits)
    from Cons.IH [OF k] have "k < length xs" "p (xs ! k)" "\<forall>j<k. \<not> p (xs ! j)"
      by simp_all
    then show ?thesis
      using False i by (auto simp: nth_Cons split: nat.splits)
  qed
qed

lemma endMeasure_found:
  "findIndex (\<lambda>m. pm_name m = nm \<and> not_ended m) metrics = Some i \<Longrightarrow>
     endMeasure nm t1 metrics =
       (Some (t1 - pm_startTime (metrics ! i)),
        metrics[i := (metrics ! i)\<lparr> pm_endTime := Some t1,
                                    pm_duration := Some (t1 - pm_startTime (metrics ! i)) \<rparr>])"
  by (simp add: endMeasure_def Let_def)

text \<open>
  Claim C7, as amended. \<open>endMeasure\<close> looks a measurement up by its name, not by the
  handle \<open>startMeasure\<close> returns, and the handle \<^verbatim>\<open>`${name}_${startTime}`\<close> is never the
  name. After \<open>startMeasure(name)\<close>, a subsequent \<open>endMeasure(name)\<close> completes the first
  open measurement of that name: that metric, and no other, gets the end reading as
  its end time and the end reading minus its start reading as its duration, and this
  duration is returned. When no measurement of that name was open before, the metric
  completed is the one just started, the last of the list, and the result is the end
  reading minus the start reading. \<open>endMeasure\<close> of the handle returns \<^verbatim>\<open>null\<close> and
  changes nothing unless a measurement named like the handle is open.
\<close>

theorem endMeasure_by_name:
  "(let handle = fst (startMeasure fmt nm t0 metrics);
        started = snd (startMeasure fmt nm t0 metrics)
    in handle \<noteq> nm \<and>
       (\<exists>i < length started.
          pm_name (started ! i) = nm \<and> not_ended (started ! i) \<and>
          (\<forall>j<i. \<not> (pm_name (started ! j) = nm \<and> not_ended (started ! j))) \<and>
          endMeasure nm t1 started =
            (Some (t1 - pm_startTime (started ! i)),
             started[i := (started ! i)\<lparr> pm_endTime := Some t1,
                                         pm_duration := Some (t1 - pm_startTime (started ! i)) \<rparr>])) \<and>
       (\<not> open_named nm metrics \<longrightarrow>
          endMeasure nm t1 started =
            (Some (t1 - t0),
             butlast started @ [\<lparr> pm_name = nm, pm_startTime = t0, pm_endTime = Some t1,
                                  pm_duration = Some (t1 - t0) \<rparr>])) \<and>
       (\<not> open_named handle metrics \<longrightarrow> endMeasure handle t1 started = (None, started)))"
proof -
  let ?new = "\<lparr> pm_name = nm, pm_startTime = t0, pm_endTime = None, pm_duration = None \<rparr>"
  let ?h = "fst (startMeasure fmt nm t0 metrics)"
  let ?started = "snd (startMeasure fmt nm t0 metrics)"
  let ?P = "\<lambda>n m. pm_name m = n \<and> not_ended m"
  obtain kept where kept: "set kept \<subseteq> set metrics"
    and after: "?started = kept @ [?new]"
    using startMeasure_snd by blast
  have h: "?h = nm @ ''_'' @ fmt t0"
    by (simp add: startMeasure_def Let_def)
  have ne: "?h \<noteq> nm"
    by (simp add: h)
  have new_open: "?P nm ?new"
    by (simp add: not_ended_def)
  have first: "\<exists>i < length ?started.
          pm_name (?started ! i) = nm \<and> not_ended (?started ! i) \<and>
          (\<forall>j<i. \<not> (pm_name (?started ! j) = nm \<and> not_ended (?started ! j))) \<and>
          endMeasure nm t1 ?started =
            (Some (t1 - pm_startTime (?started ! i)),
             ?started[i := (?started ! i)\<lparr> pm_endTime := Some t1,
                                          pm_duration := Some (t1 - pm_startTime (?started ! i)) \<rparr>])"
  proof -
    have "findIndex (?P nm) ?started \<noteq> None"
      unfolding after using new_open by (rule findIndex_Some_append)
    then obtain i where i: "findIndex (?P nm) ?started = Some i"
      by blast
    from findIndex_Some [OF i] endMeasure_found [OF i, of t1] show ?thesis
      by blast
  qed
  have fresh: "endMeasure nm t1 ?started =
            (Some (t1 - t0),
             butlast ?started @ [\<lparr> pm_name = nm, pm_startTime = t0, pm_endTime = Some t1,
                                   pm_duration = Some (t1 - t0) \<rparr>])"
    if "\<not> open_named nm metrics"
  proof -
    from that have "findIndex (?P nm) kept = None"
      using kept by (simp add: open_named_def findIndex_subset_None)
    then have "findIndex (?P nm) (kept @ [?new]) = Some (length kept)"
      using new_open by (rule findIndex_append_last)
    then have "endMeasure nm t1 (kept @ [?new]) =
       (Some (t1 - pm_startTime ((kept @ [?new]) ! length kept)),
        (kept @ [?new])[length kept := ((kept @ [?new]) ! length kept)
           \<lparr> pm_endTime := Some t1,
             pm_duration := Some (t1 - pm_startTime ((kept @ [?new]) ! length kept)) \<rparr>])"
      by (rule endMeasure_found)
    then show ?thesis
      by (simp add: after)
  qed
  have handle: "endMeasure ?h t1 ?started = (None, ?started)"
    if "\<not> open_named ?h metrics"
  proof -
    from that have "findIndex (?P ?h) kept = None"
      using kept by (simp add: open_named_def findIndex_subset_None)
    then have "findIndex (?P ?h) (kept @ [?new]) = None"
      using ne by (simp add: findIndex_None)
    then show ?thesis
      by (simp add: endMeasure_def after)
  qed
  show ?thesis
    unfolding Let_def using ne first fresh handle by blast
qed

lemma startMeasure_after_open:
  "startMeasure fmt_whole ''sync'' 5
     [\<lparr> pm_name = ''sync'', pm_startTime = 2, pm_endTime = None, pm_duration = None \<rparr>] =
     (''sync_5'',
      [\<lparr> pm_name = ''sync'', pm_startTime = 2, pm_endTime = None, pm_duration = None \<rparr>,
       \<lparr> pm_name = ''sync'', pm_startTime = 5, pm_endTime = None, pm_duration = None \<rparr>])"
proof -
  have "show_int 5 = ''5''" by code_simp
  then show ?thesis
    by (simp add: startMeasure_def fmt_whole_def Let_def maxMetrics_def)
qed

theorem endMeasure_by_name_witness:
  "\<not> open_named ''sync'' [] \<and>
   endMeasure ''sync'' 9 (snd (startMeasure fmt_whole ''sync'' 5 [])) =
     (Some 4, [\<lparr> pm_name = ''sync'', pm_startTime = 5, pm_endTime = Some 9,
                 pm_duration = Some 4 \<rparr>]) \<and>
   \<not> open_named (fst (startMeasure fmt_whole ''sync'' 5 [])) [] \<and>
   endMeasure (fst (startMeasure fmt_whole ''sync'' 5 [])) 9
       (snd (startMeasure fmt_whole ''sync'' 5 [])) =
     (None, snd (startMeasure fmt_whole ''sync'' 5 [])) \<and>
   endMeasure ''sync'' 9
       (snd (startMeasure fmt_whole ''sync'' 5
          [\<lparr> pm_name = ''sync'', pm_startTime = 2, pm_endTime = None, pm_duration = None \<rparr>])) =
     (Some 7,
      [\<lparr> pm_name = ''sync'', pm_startTime = 2, pm_endTime = Some 9, pm_duration = Some 7 \<rparr>,
       \<lparr> pm_name = ''sync'', pm_startTime = 5, pm_endTime = None, pm_duration = None \<rparr>])"
proof -
  let ?earlier = "\<lparr> pm_name = ''sync'', pm_startTime = 2, pm_endTime = None, pm_duration = None \<rparr>"
  let ?later = "\<lparr> pm_name = ''sync'', pm_startTime = 5, pm_endTime = None, pm_duration = None \<rparr>"
  have a: "\<not> open_named ''sync'' []"
    by (simp add: open_named_def)
  have b: "\<not> open_named (fst (startMeasure fmt_whole ''sync'' 5 [])) []"
    by (simp add: open_named_def)
  note on_new = endMeasure_by_name [of fmt_whole "''sync''" 5 "[]" 9, unfolded Let_def]
  have c: "endMeasure ''sync'' 9 (snd (startMeasure fmt_whole ''sync'' 5 [])) =
     (Some (9 - 5),
      butlast (snd (startMeasure fmt_whole ''sync'' 5 []))
        @ [\<lparr> pm_name = ''sync'', pm_startTime = 5, pm_endTime = Some 9,
              pm_duration = Some (9 - 5) \<rparr>])"
    using on_new a by blast
  have c': "endMeasure ''sync'' 9 (snd (startMeasure fmt_whole ''sync'' 5 [])) =
     (Some 4, [\<lparr> pm_name = ''sync'', pm_startTime = 5, pm_endTime = Some 9,
                 pm_duration = Some 4 \<rparr>])"
    unfolding c by (simp add: startMeasure_example)
  have d: "endMeasure (fst (startMeasure fmt_whole ''sync'' 5 [])) 9
       (snd (startMeasure fmt_whole ''sync'' 5 [])) =
     (None, snd (startMeasure fmt_whole ''sync'' 5 []))"
    using on_new b by blast
  note on_open = endMeasure_by_name [of fmt_whole "''sync''" 5 "[?earlier]" 9, unfolded Let_def]
  have started: "snd (startMeasure fmt_whole ''sync'' 5 [?earlier]) = [?earlier, ?later]"
    by (simp add: startMeasure_after_open)
  from on_open obtain i where i: "i < length [?earlier, ?later]"
    and least: "\<forall>j<i. \<not> (pm_name ([?earlier, ?later] ! j) = ''sync'' \<and> not_ended ([?earlier, ?later] ! j))"
    and res: "endMeasure ''sync'' 9 [?earlier, ?later] =
       (Some (9 - pm_startTime ([?earlier, ?later] ! i)),
        [?earlier, ?later][i := ([?earlier, ?later] ! i)
           \<lparr> pm_endTime := Some 9,
             pm_duration := Some (9 - pm_startTime ([?earlier, ?later] ! i)) \<rparr>])"
    unfolding started by blast
  have "i = 0"
  proof (rule ccontr)
    assume "i \<noteq> 0"
    then have "0 < i" by simp
    with least have "\<not> (pm_name ([?earlier, ?later] ! 0) = ''sync'' \<and> not_ended ([?earlier, ?later] ! 0))"
      by blast
    then show False by (simp add: not_ended_def)
  qed
  with res have e: "endMeasure ''sync'' 9 (snd (startMeasure fmt_whole ''sync'' 5 [?earlier])) =
     (Some 7,
      [\<lparr> pm_name = ''sync'', pm_startTime = 2, pm_endTime = Some 9, pm_duration = Some 7 \<rparr>,
       ?later])"
    by (simp add: started)
  show ?thesis
    by (intro conjI a b c' d e)
qed

text \<open>
  Claim C7 as stated fails: on a new recorder, \<open>startMeasure('sync')\<close> at reading 5
  returns the handle \<open>sync_5\<close>, and \<open>endMeasure\<close> of that handle at reading 9 returns
  \<^verbatim>\<open>null\<close> and leaves the measurement open.
\<close>

theorem endMeasure_handle_counterexample:
  "fst (startMeasure fmt_whole ''sync'' 5 []) = ''sync_5'' \<and>
   endMeasure (fst (startMeasure fmt_whole ''sync'' 5 [])) 9
       (snd (startMeasure fmt_whole ''sync'' 5 []))
     = (None, [\<lparr> pm_name = ''sync'', pm_startTime = 5, pm_endTime = None,
                  pm_duration = None \<rparr>])"
  by (simp add: startMeasure_example endMeasure_def)

section \<open>Properties of the TTL Cache\<close>

lemma stale_entry_cache:
  "cache stale_entry ''case_studies'' =
     Some \<lparr> ci_data = ''v1'', ci_timestamp = 0, expiry = 300000 \<rparr>"
  by (simp add: stale_entry_def cache_set_def cleanup_def)

lemma stale_entry_refreshing: "refreshing stale_entry = []"
  by (simp add: stale_entry_def)

lemma getOrFetch_late:
  "getOrFetch ''case_studies'' 300000 defaultRefreshThreshold 250000 stale_entry =
     (Hit ''v1'', stale_entry\<lparr> refreshing := [(''case_studies'', 300000)] \<rparr>)"
  by (simp add: getOrFetch_def refreshInBackground_def stale_entry_cache stale_entry_refreshing
        Let_def defaultRefreshThreshold_def)

lemma getOrFetch_late_again:
  "getOrFetch ''case_studies'' 300000 defaultRefreshThreshold 250001
     (stale_entry\<lparr> refreshing := [(''case_studies'', 300000)] \<rparr>) =
     (Hit ''v1'',
      stale_entry\<lparr> refreshing := [(''case_studies'', 300000), (''case_studies'', 300000)] \<rparr>)"
  by (simp add: getOrFetch_def refreshInBackground_def stale_entry_cache Let_def
        defaultRefreshThreshold_def)

lemma getOrFetch_in_flight:
  "in_flight key (snd (getOrFetch key ttl thr now s)) =
     in_flight key s + (if refresh_due key ttl thr now s then 1 else 0)"
  by (simp add: getOrFetch_def refreshInBackground_def in_flight_def refresh_due_def Let_def
        split: option.splits)

lemma getOrFetch_cache: "cache (snd (getOrFetch key ttl thr now s)) = cache s"
  by (simp add: getOrFetch_def refreshInBackground_def Let_def split: option.splits)

lemma refresh_due_cache:
  "cache s' = cache s \<Longrightarrow> refresh_due key ttl thr now s' = refresh_due key ttl thr now s"
  by (simp add: refresh_due_def)

lemma getOrFetch_calls_in_flight:
  "in_flight key (getOrFetch_calls key ttl thr nows s) =
     in_flight key s + length (filter (\<lambda>now. refresh_due key ttl thr now s) nows)"
proof (induction nows arbitrary: s)
  case Nil
  then show ?case by simp
next
  case (Cons now later)
  have same: "refresh_due key ttl thr t (snd (getOrFetch key ttl thr now s)) =
                refresh_due key ttl thr t s" for t
    by (rule refresh_due_cache) (rule getOrFetch_cache)
  show ?case
    by (simp add: Cons.IH getOrFetch_in_flight same)
qed

text \<open>
  Claim C1, as amended. \<open>getOrFetch\<close> keeps no record of the refreshes in flight:
  every call whose refresh test fires starts one more invocation of \<^verbatim>\<open>fetchFn\<close> for
  the key, whatever the number already in flight, and a call whose test does not fire
  starts none. So after several calls with no refresh settling in between, the number
  in flight for the key has grown by the number of calls whose test fired; it is
  bounded by the number of calls, not by one.
\<close>

theorem refresh_per_call:
  "in_flight key (snd (getOrFetch key ttl thr now s)) =
     in_flight key s + (if refresh_due key ttl thr now s then 1 else 0) \<and>
   in_flight key (getOrFetch_calls key ttl thr nows s) =
     in_flight key s + length (filter (\<lambda>now. refresh_due key ttl thr now s) nows)"
  by (simp add: getOrFetch_in_flight getOrFetch_calls_in_flight)

theorem refresh_per_call_witness:
  "refresh_due ''case_studies'' 300000 defaultRefreshThreshold 250000 stale_entry \<and>
   refresh_due ''case_studies'' 300000 defaultRefreshThreshold 250001 stale_entry \<and>
   in_flight ''case_studies'' stale_entry = 0 \<and>
   in_flight ''case_studies''
     (getOrFetch_calls ''case_studies'' 300000 defaultRefreshThreshold [250000, 250001] stale_entry)
     = 2"
proof -
  have due: "refresh_due ''case_studies'' 300000 defaultRefreshThreshold 250000 stale_entry"
      "refresh_due ''case_studies'' 300000 defaultRefreshThreshold 250001 stale_entry"
    by (simp_all add: refresh_due_def stale_entry_cache defaultRefreshThreshold_def)
  have none: "in_flight ''case_studies'' stale_entry = 0"
    by (simp add: in_flight_def stale_entry_refreshing)
  show ?thesis
    using refresh_per_call [of "''case_studies''" 300000 defaultRefreshThreshold 250000
        stale_entry "[250000, 250001]"] due none
    by simp
qed

text \<open>
  Claim C1 as stated fails. An item stored at time 0 with a TTL of 300000 ms has 50000 ms
  left at time 250000. A call at that time starts a refresh; a second call one
  millisecond later, while that refresh is in flight, starts a second one.
\<close>

theorem single_flight_counterexample:
  "in_flight ''case_studies''
     (snd (getOrFetch ''case_studies'' 300000 defaultRefreshThreshold 250000 stale_entry)) = 1 \<and>
   in_flight ''case_studies''
     (snd (getOrFetch ''case_studies'' 300000 defaultRefreshThreshold 250001
        (snd (getOrFetch ''case_studies'' 300000 defaultRefreshThreshold 250000 stale_entry)))) = 2"
  by (simp add: getOrFetch_late getOrFetch_late_again in_flight_def)

text \<open>
  Claim C2 at its failing input. An item stored at time 0 with a TTL of 300000 ms is
  read at time 100000 with the default threshold 0.8. Its remaining lifetime, 200000 ms,
  is not below \<open>(1 - 0.8) * 300000 = 60000\<close>, so by the claim (and by the source's
  comment, "refresh when 80% of TTL has passed") no refresh is due. The code compares
  with \<^verbatim>\<open>ttl * refreshThreshold\<close>, which is 240000, and starts one.
\<close>

theorem refresh_threshold_at_failing_input:
  "cache stale_entry ''case_studies'' =
     Some \<lparr> ci_data = ''v1'', ci_timestamp = 0, expiry = 300000 \<rparr> \<and>
   \<not> real_of_int (300000 - 100000) < (1 - defaultRefreshThreshold) * real_of_int 300000 \<and>
   getOrFetch ''case_studies'' 300000 defaultRefreshThreshold 100000 stale_entry =
     (Hit ''v1'', stale_entry\<lparr> refreshing := [(''case_studies'', 300000)] \<rparr>)"
  by (simp add: getOrFetch_def refreshInBackground_def stale_entry_cache stale_entry_refreshing
        Let_def defaultRefreshThreshold_def)

section \<open>Properties of the Remote Client\<close>

lemma measureAsync_id: "measureAsync r = r"
  by (simp add: measureAsync_def split: sum.splits)

lemma makeRequest_cases:
  "makeRequest req outcome =
     (case request_attempt outcome of
        Inr d \<Rightarrow> Inr d
      | Inl (Error msg) \<Rightarrow> Inr (Envelope (failure msg))
      | Inl NonError \<Rightarrow> Inr (Envelope (failure ''Unknown error occurred'')))"
  by (simp add: makeRequest_def measureAsync_id Let_def split: sum.splits thrown.splits)

lemma makeRequest_resolves: "\<exists>r. makeRequest req outcome = Inr r"
  by (simp add: makeRequest_cases split: sum.splits thrown.splits)

lemma makeRequest_rejected:
  "makeRequest req (NetworkFailure (Error msg)) = Inr (Envelope (failure msg))"
  "makeRequest req (NetworkFailure NonError) = Inr (Envelope (failure ''Unknown error occurred''))"
  by (simp_all add: makeRequest_cases request_attempt_def)

lemma makeRequest_not_ok:
  "\<not> ok status \<Longrightarrow>
     makeRequest req (Response status b) =
       Inr (Envelope (failure
         (case b of
            JsonNull wording \<Rightarrow> wording ''error''
          | Unparseable x \<Rightarrow> http_error_message status
          | JsonBare t \<Rightarrow> http_error_message status
          | Json e \<Rightarrow> or_default (error e) (http_error_message status))))"
  by (simp add: makeRequest_cases request_attempt_def errorData_error_def or_default_def
        split: body.splits)

lemma makeRequest_ok:
  "ok status \<Longrightarrow>
     makeRequest req (Response status b) =
       (case b of
          Unparseable x \<Rightarrow> Inr (Envelope (failure x))
        | JsonNull wording \<Rightarrow> Inr (Envelope (failure (wording ''success'')))
        | JsonBare t \<Rightarrow> Inr (Bare t)
        | Json e \<Rightarrow> Inr (Envelope e))"
  by (simp add: makeRequest_cases request_attempt_def split: body.splits)

text \<open>
  Claim C4, as amended. For every request and every outcome of the transport, the
  promise of \<open>makeRequest\<close> resolves and never rejects. A transport rejection gives an
  envelope with \<open>success = false\<close> and the error's message. Every response whose status
  is not 2xx gives an envelope with \<open>success = false\<close>; its error is the error message
  of the remote body when the body is a JSON object with a non-empty one, and
  \<open>HTTP error! status: n\<close> when the body is an object without one, cannot be parsed, or
  is an array or a primitive value. A 2xx response gives the parsed body as the remote
  store sent it: the remote store's own envelope when the body is a JSON object (so a
  failure the remote store reports arrives as it was sent), and a value that is not an
  envelope when the body is an array or a primitive value. A 2xx body that cannot be
  parsed, or is \<^verbatim>\<open>null\<close>, gives an envelope with \<open>success = false\<close>.
\<close>

theorem client_never_raises:
  fixes outcome :: "'d fetch_outcome" and b :: "'d body" and j d :: "'d api_response"
  shows
  "(\<exists>r. makeRequest req outcome = Inr r) \<and>
   makeRequest req (NetworkFailure (Error msg)) =
     (Inr (Envelope \<lparr> success = False, data = None, error = Some msg, message = None \<rparr>)
        :: thrown + 'd reply) \<and>
   makeRequest req (NetworkFailure NonError) =
     (Inr (Envelope \<lparr> success = False, data = None, error = Some ''Unknown error occurred'',
                      message = None \<rparr>) :: thrown + 'd reply) \<and>
   (\<not> ok status \<longrightarrow>
      (\<exists>text. makeRequest req (Response status b) =
         Inr (Envelope \<lparr> success = False, data = None, error = Some text, message = None \<rparr>))) \<and>
   (\<not> ok status \<and> error j = Some msg \<and> msg \<noteq> [] \<longrightarrow>
      makeRequest req (Response status (Json j)) =
        Inr (Envelope \<lparr> success = False, data = None, error = Some msg, message = None \<rparr>)) \<and>
   (\<not> ok status \<and> (error j = None \<or> error j = Some []) \<longrightarrow>
      makeRequest req (Response status (Json j)) =
        Inr (Envelope \<lparr> success = False, data = None,
                         error = Some (''HTTP error! status: '' @ show_nat status),
                         message = None \<rparr>)) \<and>
   (\<not> ok status \<longrightarrow>
      makeRequest req (Response status (Unparseable u)) =
        (Inr (Envelope \<lparr> success = False, data = None,
                          error = Some (''HTTP error! status: '' @ show_nat status),
                          message = None \<rparr>) :: thrown + 'd reply) \<and>
      makeRequest req (Response status (JsonBare t)) =
        (Inr (Envelope \<lparr> success = False, data = None,
                          error = Some (''HTTP error! status: '' @ show_nat status),
                          message = None \<rparr>) :: thrown + 'd reply)) \<and>
   (ok status \<longrightarrow>
      makeRequest req (Response status (Json d)) = Inr (Envelope d) \<and>
      makeRequest req (Response status (JsonBare t)) = (Inr (Bare t) :: thrown + 'd reply) \<and>
      makeRequest req (Response status (Unparseable u)) =
        (Inr (Envelope \<lparr> success = False, data = None, error = Some u, message = None \<rparr>)
           :: thrown + 'd reply) \<and>
      (\<exists>text. makeRequest req (Response status (JsonNull wording)) =
         (Inr (Envelope \<lparr> success = False, data = None, error = Some text, message = None \<rparr>)
            :: thrown + 'd reply)))"
proof -
  have any_status: "\<exists>text. makeRequest req (Response status b) =
         Inr (Envelope \<lparr> success = False, data = None, error = Some text, message = None \<rparr>)"
    if "\<not> ok status"
    by (simp add: makeRequest_not_ok [OF that] failure_def)
  have not_ok: "makeRequest req (Response status (Json j)) =
        Inr (Envelope \<lparr> success = False, data = None,
                         error = Some (or_default (error j) (''HTTP error! status: '' @ show_nat status)),
                         message = None \<rparr>)"
      "makeRequest req (Response status (Unparseable u)) =
        (Inr (Envelope \<lparr> success = False, data = None,
                          error = Some (''HTTP error! status: '' @ show_nat status),
                          message = None \<rparr>) :: thrown + 'd reply)"
      "makeRequest req (Response status (JsonBare t)) =
        (Inr (Envelope \<lparr> success = False, data = None,
                          error = Some (''HTTP error! status: '' @ show_nat status),
                          message = None \<rparr>) :: thrown + 'd reply)"
    if "\<not> ok status"
    by (simp_all add: makeRequest_not_ok [OF that] failure_def http_error_message_def)
  have is_ok: "makeRequest req (Response status (Json d)) = Inr (Envelope d)"
      "makeRequest req (Response status (JsonBare t)) = (Inr (Bare t) :: thrown + 'd reply)"
      "makeRequest req (Response status (Unparseable u)) =
        (Inr (Envelope \<lparr> success = False, data = None, error = Some u, message = None \<rparr>)
           :: thrown + 'd reply)"
      "\<exists>text. makeRequest req (Response status (JsonNull wording)) =
         (Inr (Envelope \<lparr> success = False, data = None, error = Some text, message = None \<rparr>)
            :: thrown + 'd reply)"
    if "ok status"
    by (simp_all add: makeRequest_ok [OF that] failure_def)
  have rejected: "makeRequest req (NetworkFailure (Error msg)) =
     (Inr (Envelope \<lparr> success = False, data = None, error = Some msg, message = None \<rparr>)
        :: thrown + 'd reply)"
    "makeRequest req (NetworkFailure NonError) =
     (Inr (Envelope \<lparr> success = False, data = None, error = Some ''Unknown error occurred'',
                      message = None \<rparr>) :: thrown + 'd reply)"
    by (simp_all add: makeRequest_rejected failure_def)
  show ?thesis
    using makeRequest_resolves [of req outcome] rejected any_status not_ok is_ok
    by (auto simp add: or_default_def)
qed

theorem client_never_raises_witness:
  "\<not> ok 404 \<and> error not_found = Some ''Case study not found'' \<and>
   makeRequest list_request (Response 404 (Json not_found)) =
     Inr (Envelope \<lparr> success = False, data = None, error = Some ''Case study not found'',
                      message = None \<rparr>) \<and>
   \<not> ok 502 \<and> error (rows_response []) = None \<and>
   makeRequest list_request (Response 502 (Json (rows_response []))) =
     Inr (Envelope \<lparr> success = False, data = None, error = Some ''HTTP error! status: 502'',
                      message = None \<rparr>) \<and>
   \<not> ok 500 \<and>
   makeRequest list_request (Response 500 (Unparseable ''Unexpected token <'')) =
     (Inr (Envelope \<lparr> success = False, data = None, error = Some ''HTTP error! status: 500'',
                       message = None \<rparr>) :: thrown + case_study list reply) \<and>
   makeRequest list_request (Response 500 (JsonBare ''[1, 2]'')) =
     (Inr (Envelope \<lparr> success = False, data = None, error = Some ''HTTP error! status: 500'',
                       message = None \<rparr>) :: thrown + case_study list reply) \<and>
   ok 200 \<and>
   makeRequest list_request (Response 200 (Json not_found)) = Inr (Envelope not_found) \<and>
   makeRequest list_request (Response 200 (JsonBare ''[1, 2]'')) =
     (Inr (Bare ''[1, 2]'') :: thrown + case_study list reply) \<and>
   makeRequest list_request (Response 200 (Unparseable ''Unexpected token <'')) =
     (Inr (Envelope \<lparr> success = False, data = None, error = Some ''Unexpected token <'', message = None \<rparr>)
        :: thrown + case_study list reply) \<and>
   (\<exists>text. makeRequest list_request (Response 200 (JsonNull v8_wording)) =
      (Inr (Envelope \<lparr> success = False, data = None, error = Some text, message = None \<rparr>)
         :: thrown + case_study list reply))"
proof -
  have s500: "show_nat 500 = ''500''" by code_simp
  have s502: "show_nat 502 = ''502''" by code_simp
  have a: "\<not> ok 404" "\<not> ok 500" "\<not> ok 502" "ok 200" by (simp_all add: ok_def)
  have e: "error not_found = Some ''Case study not found''" "error (rows_response []) = None"
    by (simp_all add: not_found_def failure_def rows_response_def)
  have r404: "makeRequest list_request (Response 404 (Json not_found)) =
     Inr (Envelope \<lparr> success = False, data = None, error = Some ''Case study not found'',
                      message = None \<rparr>)"
    using client_never_raises [where req = list_request and status = 404 and j = not_found
        and msg = "''Case study not found''"] a e
    by simp
  have r502: "makeRequest list_request (Response 502 (Json (rows_response []))) =
     Inr (Envelope \<lparr> success = False, data = None,
                      error = Some (''HTTP error! status: '' @ show_nat 502), message = None \<rparr>)"
    using client_never_raises [where req = list_request and status = 502
        and j = "rows_response []"] a e
    by blast
  have r500: "makeRequest list_request (Response 500 (Unparseable ''Unexpected token <'')) =
     (Inr (Envelope \<lparr> success = False, data = None,
                       error = Some (''HTTP error! status: '' @ show_nat 500), message = None \<rparr>)
        :: thrown + case_study list reply)"
     "makeRequest list_request (Response 500 (JsonBare ''[1, 2]'')) =
     (Inr (Envelope \<lparr> success = False, data = None,
                       error = Some (''HTTP error! status: '' @ show_nat 500), message = None \<rparr>)
        :: thrown + case_study list reply)"
    using client_never_raises [where req = list_request and status = 500 and u = "''Unexpected token <''" and t = "''[1, 2]''"
        and j = not_found] a
    by blast+
  have r200: "makeRequest list_request (Response 200 (Json not_found)) = Inr (Envelope not_found)"
     "makeRequest list_request (Response 200 (JsonBare ''[1, 2]'')) =
       (Inr (Bare ''[1, 2]'') :: thrown + case_study list reply)"
     "makeRequest list_request (Response 200 (Unparseable ''Unexpected token <'')) =
       (Inr (Envelope \<lparr> success = False, data = None, error = Some ''Unexpected token <'', message = None \<rparr>)
          :: thrown + case_study list reply)"
     "\<exists>text. makeRequest list_request (Response 200 (JsonNull v8_wording)) =
        (Inr (Envelope \<lparr> success = False, data = None, error = Some text, message = None \<rparr>)
           :: thrown + case_study list reply)"
    using client_never_raises [where req = list_request and status = 200 and u = "''Unexpected token <''" and t = "''[1, 2]''"
        and d = not_found and wording = v8_wording] a
    by blast+
  show ?thesis
    using a e r404 r500 r502 r200 by (simp add: s500 s502)
qed

text \<open>
  Claim C4 as stated fails in two places. A 2xx response whose body is the JSON array
  \<open>[]\<close> resolves to that array, which is not an envelope. A 404 response whose body is
  \<^verbatim>\<open>null\<close> resolves to an envelope whose error is the host's TypeError message
  for reading \<^verbatim>\<open>errorData.error\<close>: neither an error message of the remote store nor
  \<open>HTTP error! status: 404\<close>.
\<close>

theorem client_envelope_counterexample:
  "makeRequest list_request (Response 200 (JsonBare ''[]'')) =
     (Inr (Bare ''[]'') :: thrown + case_study list reply) \<and>
   makeRequest list_request (Response 404 (JsonNull v8_wording)) =
     (Inr (Envelope \<lparr> success = False, data = None, error = Some (v8_wording ''error''),
                       message = None \<rparr>) :: thrown + case_study list reply) \<and>
   v8_wording ''error'' \<noteq> ''HTTP error! status: '' @ show_nat 404"
proof -
  have a: "ok 200" "\<not> ok 404" by (simp_all add: ok_def)
  show ?thesis
    by (simp add: makeRequest_ok [OF a(1)] makeRequest_not_ok [OF a(2)] failure_def
          v8_wording_def)
qed

lemma cache_set_lookup:
  "0 \<le> ttl \<Longrightarrow>
     cache_set key d ttl now c key =
       Some \<lparr> ci_data = d, ci_timestamp = now, expiry = now + ttl \<rparr>"
  by (simp add: cache_set_def cleanup_def)

lemma getOrFetch_settled_stores:
  "0 \<le> ttl \<Longrightarrow>
     cache (snd (getOrFetch_settled key ttl (Inr d) now s)) key =
       Some \<lparr> ci_data = d, ci_timestamp = now, expiry = now + ttl \<rparr>"
  by (simp add: getOrFetch_settled_def cache_set_lookup)

lemma getOrFetch_hit:
  "cache s key = Some item \<Longrightarrow> fst (getOrFetch key ttl thr now s) = Hit (ci_data item)"
  by (simp add: getOrFetch_def Let_def)

lemma refresh_stores:
  "0 \<le> ttl \<Longrightarrow>
     cache (refreshInBackground_settled key ttl (Inr d) now s) key =
       Some \<lparr> ci_data = d, ci_timestamp = now, expiry = now + ttl \<rparr>"
  by (simp add: refreshInBackground_settled_def cache_set_lookup)

lemma TTL_MEDIUM_nonneg: "0 \<le> TTL_MEDIUM"
  by (simp add: TTL_MEDIUM_def)

lemma read_settled_cached:
  assumes "makeRequest req outcome = Inr env"
  shows "fst (getOrFetch_settled key TTL_MEDIUM (makeRequest req outcome) t0 s) = Inr env"
    and "cache (snd (getOrFetch_settled key TTL_MEDIUM (makeRequest req outcome) t0 s)) key =
           Some \<lparr> ci_data = env, ci_timestamp = t0, expiry = t0 + TTL_MEDIUM \<rparr>"
    and "fst (getOrFetch key TTL_MEDIUM thr now
                (snd (getOrFetch_settled key TTL_MEDIUM (makeRequest req outcome) t0 s))) = Hit env"
proof -
  show "fst (getOrFetch_settled key TTL_MEDIUM (makeRequest req outcome) t0 s) = Inr env"
    by (simp add: assms getOrFetch_settled_def)
  show stored: "cache (snd (getOrFetch_settled key TTL_MEDIUM (makeRequest req outcome) t0 s)) key =
           Some \<lparr> ci_data = env, ci_timestamp = t0, expiry = t0 + TTL_MEDIUM \<rparr>"
    by (simp add: assms getOrFetch_settled_stores TTL_MEDIUM_nonneg)
  show "fst (getOrFetch key TTL_MEDIUM thr now
                (snd (getOrFetch_settled key TTL_MEDIUM (makeRequest req outcome) t0 s))) = Hit env"
    using getOrFetch_hit [OF stored] by simp
qed

lemma read_after_refresh:
  assumes "makeRequest req outcome = Inr env"
  shows "fst (getOrFetch key TTL_MEDIUM thr now (refresh_settled key req outcome t1 s)) = Hit env"
proof -
  have "cache (refresh_settled key req outcome t1 s) key =
          Some \<lparr> ci_data = env, ci_timestamp = t1, expiry = t1 + TTL_MEDIUM \<rparr>"
    by (simp add: refresh_settled_def assms refresh_stores TTL_MEDIUM_nonneg)
  from getOrFetch_hit [OF this] show ?thesis by simp
qed

lemma updateCaseStudy_eq:
  "updateCaseStudy ident patch outcome s =
     (case makeRequest (update_request ident patch) outcome of
        Inl e \<Rightarrow> (Inl e, s)
      | Inr result \<Rightarrow>
          if reply_success result
          then (Inr result,
                s\<lparr> cache := (cache s)(CASE_STUDIES := None, CASE_STUDY ident := None,
                                        HOMEPAGE_SOLUTIONS := None) \<rparr>)
          else (Inr result, s))"
  by (simp add: updateCaseStudy_def measureAsync_id cache_delete_def Let_def split: sum.splits)

lemma read_after_missed_read:
  assumes "makeRequest req outcome = Inr r"
  shows "fst (getOrFetch key TTL_MEDIUM thr now
                (snd (getOrFetch_settled key TTL_MEDIUM (makeRequest req outcome) t1 s))) = Hit r"
  using read_settled_cached(3) [OF assms] .

text \<open>
  Claim C3, as amended. \<open>updateCaseStudy\<close> always resolves. When it returns a success
  envelope, the cache has, at that moment, no item under the list key, under the key
  of that id and under the homepage key, so a read of the list or of the item issued
  before any pending fetch settles misses the cache and goes to the remote store.
  Fetches in flight are not cancelled: the refreshes in flight are the same after the
  call as before, and a background refresh or a missed read of one of these keys that
  settles after the call stores its answer under the key, whatever the time the remote
  store served it, and later reads return that answer. When \<open>updateCaseStudy\<close>
  returns a failure envelope, or a value that is not an envelope, the cache is exactly
  as it was before the call.
\<close>

theorem write_invalidation_on_success_only:
  "(\<exists>r. fst (updateCaseStudy ident patch outcome s) = Inr r) \<and>
   (\<forall>e. fst (updateCaseStudy ident patch outcome s) = Inr (Envelope e) \<and> success e \<longrightarrow>
      cache (snd (updateCaseStudy ident patch outcome s)) CASE_STUDIES = None \<and>
      cache (snd (updateCaseStudy ident patch outcome s)) (CASE_STUDY ident) = None \<and>
      cache (snd (updateCaseStudy ident patch outcome s)) HOMEPAGE_SOLUTIONS = None \<and>
      fst (getAllCaseStudies now (snd (updateCaseStudy ident patch outcome s))) = Miss \<and>
      fst (getCaseStudy ident now (snd (updateCaseStudy ident patch outcome s))) = Miss \<and>
      fst (cache_get CASE_STUDIES now (cache (snd (updateCaseStudy ident patch outcome s))))
        = None \<and>
      fst (cache_get (CASE_STUDY ident) now (cache (snd (updateCaseStudy ident patch outcome s))))
        = None \<and>
      refreshing (snd (updateCaseStudy ident patch outcome s)) = refreshing s) \<and>
   (\<forall>e. fst (updateCaseStudy ident patch outcome s) = Inr (Envelope e) \<and> \<not> success e \<longrightarrow>
      snd (updateCaseStudy ident patch outcome s) = s) \<and>
   (\<forall>t. fst (updateCaseStudy ident patch outcome s) = Inr (Bare t) \<longrightarrow>
      snd (updateCaseStudy ident patch outcome s) = s) \<and>
   (makeRequest list_request answer = Inr r' \<longrightarrow>
      fst (getAllCaseStudies now'
             (refresh_settled CASE_STUDIES list_request answer t1
                (snd (updateCaseStudy ident patch outcome s)))) = Hit r' \<and>
      fst (getAllCaseStudies now'
             (snd (getAllCaseStudies_settled answer t1
                (snd (updateCaseStudy ident patch outcome s))))) = Hit r') \<and>
   (makeRequest (item_request ident) answer = Inr r' \<longrightarrow>
      fst (getCaseStudy ident now'
             (refresh_settled (CASE_STUDY ident) (item_request ident) answer t1
                (snd (updateCaseStudy ident patch outcome s)))) = Hit r' \<and>
      fst (getCaseStudy ident now'
             (snd (getCaseStudy_settled ident answer t1
                (snd (updateCaseStudy ident patch outcome s))))) = Hit r')"
proof -
  let ?after = "snd (updateCaseStudy ident patch outcome s)"
  obtain r where r: "makeRequest (update_request ident patch) outcome = Inr r"
    using makeRequest_resolves by blast
  have at_return:
    "(\<exists>r. fst (updateCaseStudy ident patch outcome s) = Inr r) \<and>
     (\<forall>e. fst (updateCaseStudy ident patch outcome s) = Inr (Envelope e) \<and> success e \<longrightarrow>
        cache ?after CASE_STUDIES = None \<and>
        cache ?after (CASE_STUDY ident) = None \<and>
        cache ?after HOMEPAGE_SOLUTIONS = None \<and>
        fst (getAllCaseStudies now ?after) = Miss \<and>
        fst (getCaseStudy ident now ?after) = Miss \<and>
        fst (cache_get CASE_STUDIES now (cache ?after)) = None \<and>
        fst (cache_get (CASE_STUDY ident) now (cache ?after)) = None \<and>
        refreshing ?after = refreshing s) \<and>
     (\<forall>e. fst (updateCaseStudy ident patch outcome s) = Inr (Envelope e) \<and> \<not> success e \<longrightarrow>
        ?after = s) \<and>
     (\<forall>t. fst (updateCaseStudy ident patch outcome s) = Inr (Bare t) \<longrightarrow> ?after = s)"
    by (auto simp add: updateCaseStudy_eq r getAllCaseStudies_def getCaseStudy_def getOrFetch_def
          cache_get_def reply_success_def split: reply.splits)
  have list_later:
    "fst (getAllCaseStudies now' (refresh_settled CASE_STUDIES list_request answer t1 ?after)) = Hit r'"
    "fst (getAllCaseStudies now' (snd (getAllCaseStudies_settled answer t1 ?after))) = Hit r'"
    if "makeRequest list_request answer = Inr r'"
    unfolding getAllCaseStudies_def getAllCaseStudies_settled_def
    using that by (rule read_after_refresh, rule read_after_missed_read)
  have item_later:
    "fst (getCaseStudy ident now'
       (refresh_settled (CASE_STUDY ident) (item_request ident) answer t1 ?after)) = Hit r'"
    "fst (getCaseStudy ident now' (snd (getCaseStudy_settled ident answer t1 ?after))) = Hit r'"
    if "makeRequest (item_request ident) answer = Inr r'"
    unfolding getCaseStudy_def getCaseStudy_settled_def
    using that by (rule read_after_refresh, rule read_after_missed_read)
  show ?thesis
    using at_return list_later item_later by blast
qed

lemma update_accepted_result:
  "makeRequest req update_accepted = Inr (Envelope (rows_response [updated_case]))"
  by (simp add: update_accepted_def makeRequest_ok ok_def)

lemma answer_before_update_result:
  "makeRequest req answer_before_update = Inr (Envelope (rows_response [example_case]))"
  by (simp add: answer_before_update_def makeRequest_ok ok_def)

lemma warm_cache_list:
  "cache warm_cache CASE_STUDIES =
     Some \<lparr> ci_data = Envelope (rows_response [example_case]), ci_timestamp = 0,
            expiry = 300000 \<rparr>"
  by (simp add: warm_cache_def CASE_STUDIES_def CASE_STUDY_def HOMEPAGE_SOLUTIONS_def)

theorem write_invalidation_on_success_only_witness:
  "fst (updateCaseStudy ''cs-1'' ''{}'' update_accepted warm_cache)
     = Inr (Envelope (rows_response [updated_case])) \<and>
   success (rows_response [updated_case]) \<and>
   cache warm_cache CASE_STUDIES \<noteq> None \<and>
   cache (snd (updateCaseStudy ''cs-1'' ''{}'' update_accepted warm_cache)) CASE_STUDIES = None \<and>
   cache (snd (updateCaseStudy ''cs-1'' ''{}'' update_accepted warm_cache)) (CASE_STUDY ''cs-1'')
     = None \<and>
   cache (snd (updateCaseStudy ''cs-1'' ''{}'' update_accepted warm_cache)) HOMEPAGE_SOLUTIONS
     = None \<and>
   fst (getAllCaseStudies 1000 (snd (updateCaseStudy ''cs-1'' ''{}'' update_accepted warm_cache)))
     = Miss \<and>
   fst (updateCaseStudy ''cs-1'' ''{}'' (Response 404 (Json not_found)) warm_cache)
     = Inr (Envelope not_found) \<and>
   \<not> success not_found \<and>
   snd (updateCaseStudy ''cs-1'' ''{}'' (Response 404 (Json not_found)) warm_cache) = warm_cache \<and>
   fst (updateCaseStudy ''cs-1'' ''{}'' (Response 200 (JsonBare ''[]'')) warm_cache)
     = Inr (Bare ''[]'') \<and>
   snd (updateCaseStudy ''cs-1'' ''{}'' (Response 200 (JsonBare ''[]'')) warm_cache) = warm_cache \<and>
   makeRequest list_request answer_before_update = Inr (Envelope (rows_response [example_case])) \<and>
   fst (getAllCaseStudies 2000
          (refresh_settled CASE_STUDIES list_request answer_before_update 1500
             (snd (updateCaseStudy ''cs-1'' ''{}'' update_accepted warm_cache))))
     = Hit (Envelope (rows_response [example_case])) \<and>
   makeRequest (item_request ''cs-1'') answer_before_update
     = Inr (Envelope (rows_response [example_case])) \<and>
   fst (getCaseStudy ''cs-1'' 2000
          (snd (getCaseStudy_settled ''cs-1'' answer_before_update 1500
             (snd (updateCaseStudy ''cs-1'' ''{}'' update_accepted warm_cache)))))
     = Hit (Envelope (rows_response [example_case]))"
proof -
  have a: "fst (updateCaseStudy ''cs-1'' ''{}'' update_accepted warm_cache)
             = Inr (Envelope (rows_response [updated_case]))"
    by (simp add: updateCaseStudy_eq update_accepted_result reply_success_def rows_response_def)
  have b: "success (rows_response [updated_case])"
    by (simp add: rows_response_def)
  have c: "fst (updateCaseStudy ''cs-1'' ''{}'' (Response 404 (Json not_found)) warm_cache)
             = Inr (Envelope not_found)"
    by (simp add: updateCaseStudy_eq makeRequest_not_ok ok_def not_found_def failure_def
          or_default_def reply_success_def)
  have d: "\<not> success not_found"
    by (simp add: not_found_def failure_def)
  have e: "cache warm_cache CASE_STUDIES \<noteq> None"
    by (simp add: warm_cache_list)
  have f: "fst (updateCaseStudy ''cs-1'' ''{}'' (Response 200 (JsonBare ''[]'')) warm_cache)
             = Inr (Bare ''[]'')"
    by (simp add: updateCaseStudy_eq makeRequest_ok ok_def reply_success_def)
  note accepted = write_invalidation_on_success_only [of "''cs-1''" "''{}''" update_accepted
      warm_cache 1000 answer_before_update "Envelope (rows_response [example_case])" 2000 1500]
  note refused = write_invalidation_on_success_only [of "''cs-1''" "''{}''"
      "Response 404 (Json not_found)" warm_cache 1000 answer_before_update
      "Envelope (rows_response [example_case])" 2000 1500]
  note bare = write_invalidation_on_success_only [of "''cs-1''" "''{}''"
      "Response 200 (JsonBare ''[]'')" warm_cache 1000 answer_before_update
      "Envelope (rows_response [example_case])" 2000 1500]
  note deleted = accepted [THEN conjunct2, THEN conjunct1, rule_format, OF conjI [OF a b]]
  note kept = refused [THEN conjunct2, THEN conjunct2, THEN conjunct1, rule_format,
      OF conjI [OF c d]]
  note kept_bare = bare [THEN conjunct2, THEN conjunct2, THEN conjunct2, THEN conjunct1,
      rule_format, OF f]
  note list_later = accepted [THEN conjunct2, THEN conjunct2, THEN conjunct2, THEN conjunct2,
      THEN conjunct1, rule_format, OF answer_before_update_result]
  note item_later = accepted [THEN conjunct2, THEN conjunct2, THEN conjunct2, THEN conjunct2,
      THEN conjunct2, rule_format, OF answer_before_update_result]
  show ?thesis
    using deleted kept kept_bare list_later item_later a b c d e f
      answer_before_update_result [of list_request]
      answer_before_update_result [of "item_request ''cs-1''"]
    by blast
qed

text \<open>
  Claim C3 as stated fails. The list is cached until 300000. A read at 250000 starts a
  background refresh. While it is in flight an update succeeds and the list key is
  deleted. At 251000 the refresh settles with the answer the remote store gave before
  the update and stores it, and a read at 252000 returns from the cache the same list
  that was cached before the update.
\<close>

theorem stale_refresh_counterexample:
  "cache warm_cache CASE_STUDIES =
     Some \<lparr> ci_data = Envelope (rows_response [example_case]), ci_timestamp = 0,
            expiry = 300000 \<rparr> \<and>
   in_flight CASE_STUDIES (snd (getAllCaseStudies 250000 warm_cache)) = 1 \<and>
   fst (updateCaseStudy ''cs-1'' ''{}'' update_accepted (snd (getAllCaseStudies 250000 warm_cache)))
     = Inr (Envelope (rows_response [updated_case])) \<and>
   success (rows_response [updated_case]) \<and>
   cache (snd (updateCaseStudy ''cs-1'' ''{}'' update_accepted
                 (snd (getAllCaseStudies 250000 warm_cache)))) CASE_STUDIES = None \<and>
   fst (getAllCaseStudies 252000
          (refresh_settled CASE_STUDIES list_request answer_before_update 251000
             (snd (updateCaseStudy ''cs-1'' ''{}'' update_accepted
                     (snd (getAllCaseStudies 250000 warm_cache))))))
     = Hit (Envelope (rows_response [example_case]))"
proof -
  have started: "snd (getAllCaseStudies 250000 warm_cache) =
                   warm_cache\<lparr> refreshing := [(CASE_STUDIES, TTL_MEDIUM)] \<rparr>"
    by (simp add: getAllCaseStudies_def getOrFetch_def refreshInBackground_def Let_def
          warm_cache_list TTL_MEDIUM_def defaultRefreshThreshold_def)
       (simp add: warm_cache_def)
  have a: "in_flight CASE_STUDIES (snd (getAllCaseStudies 250000 warm_cache)) = 1"
    by (simp add: started in_flight_def)
  have b: "fst (updateCaseStudy ''cs-1'' ''{}'' update_accepted
                  (snd (getAllCaseStudies 250000 warm_cache)))
             = Inr (Envelope (rows_response [updated_case]))"
    by (simp add: updateCaseStudy_eq update_accepted_result reply_success_def rows_response_def)
  have c: "success (rows_response [updated_case])"
    by (simp add: rows_response_def)
  have d: "cache (snd (updateCaseStudy ''cs-1'' ''{}'' update_accepted
                 (snd (getAllCaseStudies 250000 warm_cache)))) CASE_STUDIES = None"
    by (simp add: updateCaseStudy_eq update_accepted_result reply_success_def rows_response_def)
  have e: "fst (getAllCaseStudies 252000
          (refresh_settled CASE_STUDIES list_request answer_before_update 251000
             (snd (updateCaseStudy ''cs-1'' ''{}'' update_accepted
                     (snd (getAllCaseStudies 250000 warm_cache))))))
     = Hit (Envelope (rows_response [example_case]))"
    unfolding getAllCaseStudies_def
    by (rule read_after_refresh) (rule answer_before_update_result)
  show ?thesis
    by (intro conjI warm_cache_list a b c d e)
qed

lemma offline_envelope: "makeRequest req offline = Inr (Envelope (failure ''Failed to fetch''))"
  by (simp add: offline_def makeRequest_rejected)

lemma after_failed_read_eq:
  "after_failed_read =
     \<lparr> cache = [CASE_STUDIES \<mapsto> \<lparr> ci_data = Envelope (failure ''Failed to fetch''), ci_timestamp = 0,
                                    expiry = 300000 \<rparr>],
       refreshing = [] \<rparr>"
  by (simp add: after_failed_read_def getAllCaseStudies_settled_def offline_envelope
        getOrFetch_settled_def empty_cache_def cache_set_def cleanup_def TTL_MEDIUM_def fun_eq_iff)

lemma call_within_ttl:
  "getAllCaseStudies 250000 after_failed_read =
     (Hit (Envelope (failure ''Failed to fetch'')),
      after_failed_read\<lparr> refreshing := [(CASE_STUDIES, TTL_MEDIUM)] \<rparr>)"
  by (simp add: getAllCaseStudies_def getOrFetch_def refreshInBackground_def Let_def
        after_failed_read_eq TTL_MEDIUM_def defaultRefreshThreshold_def)

lemma recovered_envelope:
  "makeRequest req (Response 200 (Json (rows_response [example_case]))) =
     Inr (Envelope (rows_response [example_case]))"
  by (simp add: makeRequest_ok ok_def)

lemma failed_read_envelope:
  "fst (getAllCaseStudies_settled offline 0 empty_cache) = Inr (Envelope (failure ''Failed to fetch''))"
  "fst (getCaseStudy_settled ident offline 0 empty_cache) = Inr (Envelope (failure ''Failed to fetch''))"
  by (simp_all add: getAllCaseStudies_settled_def getCaseStudy_settled_def offline_envelope
        getOrFetch_settled_def)

text \<open>
  Claim C10, as amended. A failed read is cached like a success: when
  \<open>getAllCaseStudies\<close> or \<open>getCaseStudy\<close> misses the cache and the request fails, the
  failure envelope is stored under the read key with the medium TTL, and a later call
  returns that envelope from the cache, without waiting for the remote store, as long
  as the item has not been replaced. Such a call can start a background refresh, which
  does contact the remote store; once a refresh has settled, later calls return the
  envelope it fetched, so after the store has recovered they return the recovered
  data, also within the five minutes.
\<close>

theorem failed_reads_are_cached:
  "(fst (getAllCaseStudies_settled outcome t0 s) = Inr (Envelope env) \<and> \<not> success env \<longrightarrow>
      cache (snd (getAllCaseStudies_settled outcome t0 s)) CASE_STUDIES =
        Some \<lparr> ci_data = Envelope env, ci_timestamp = t0, expiry = t0 + TTL_MEDIUM \<rparr> \<and>
      fst (getAllCaseStudies now (snd (getAllCaseStudies_settled outcome t0 s))) = Hit (Envelope env)) \<and>
   (fst (getCaseStudy_settled ident outcome t0 s) = Inr (Envelope env) \<and> \<not> success env \<longrightarrow>
      cache (snd (getCaseStudy_settled ident outcome t0 s)) (CASE_STUDY ident) =
        Some \<lparr> ci_data = Envelope env, ci_timestamp = t0, expiry = t0 + TTL_MEDIUM \<rparr> \<and>
      fst (getCaseStudy ident now (snd (getCaseStudy_settled ident outcome t0 s))) = Hit (Envelope env)) \<and>
   (makeRequest list_request recovered = Inr env' \<longrightarrow>
      fst (getAllCaseStudies now' (refresh_settled CASE_STUDIES list_request recovered t1 s'))
        = Hit env') \<and>
   (makeRequest (item_request ident) recovered = Inr env' \<longrightarrow>
      fst (getCaseStudy ident now'
             (refresh_settled (CASE_STUDY ident) (item_request ident) recovered t1 s')) = Hit env')"
proof -
  obtain e1 where e1: "makeRequest list_request outcome = Inr e1"
    using makeRequest_resolves by blast
  obtain e2 where e2: "makeRequest (item_request ident) outcome = Inr e2"
    using makeRequest_resolves by blast
  have all_cached: "cache (snd (getAllCaseStudies_settled outcome t0 s)) CASE_STUDIES =
        Some \<lparr> ci_data = e1, ci_timestamp = t0, expiry = t0 + TTL_MEDIUM \<rparr>"
      "fst (getAllCaseStudies now (snd (getAllCaseStudies_settled outcome t0 s))) = Hit e1"
      "fst (getAllCaseStudies_settled outcome t0 s) = Inr e1"
    unfolding getAllCaseStudies_settled_def getAllCaseStudies_def
    by (rule read_settled_cached [OF e1])+
  have one_cached: "cache (snd (getCaseStudy_settled ident outcome t0 s)) (CASE_STUDY ident) =
        Some \<lparr> ci_data = e2, ci_timestamp = t0, expiry = t0 + TTL_MEDIUM \<rparr>"
      "fst (getCaseStudy ident now (snd (getCaseStudy_settled ident outcome t0 s))) = Hit e2"
      "fst (getCaseStudy_settled ident outcome t0 s) = Inr e2"
    unfolding getCaseStudy_settled_def getCaseStudy_def
    by (rule read_settled_cached [OF e2])+
  have all_refreshed:
    "fst (getAllCaseStudies now' (refresh_settled CASE_STUDIES list_request recovered t1 s'))
       = Hit env'"
    if "makeRequest list_request recovered = Inr env'"
    unfolding getAllCaseStudies_def using that by (rule read_after_refresh)
  have one_refreshed:
    "fst (getCaseStudy ident now'
       (refresh_settled (CASE_STUDY ident) (item_request ident) recovered t1 s')) = Hit env'"
    if "makeRequest (item_request ident) recovered = Inr env'"
    unfolding getCaseStudy_def using that by (rule read_after_refresh)
  show ?thesis
    using all_cached one_cached all_refreshed one_refreshed by simp
qed

theorem failed_reads_are_cached_witness:
  "fst (getAllCaseStudies_settled offline 0 empty_cache) = Inr (Envelope (failure ''Failed to fetch'')) \<and>
   \<not> success (failure ''Failed to fetch'' :: case_study list api_response) \<and>
   cache (snd (getAllCaseStudies_settled offline 0 empty_cache)) CASE_STUDIES =
     Some \<lparr> ci_data = Envelope (failure ''Failed to fetch''), ci_timestamp = 0, expiry = 0 + TTL_MEDIUM \<rparr> \<and>
   fst (getAllCaseStudies 1000 (snd (getAllCaseStudies_settled offline 0 empty_cache))) =
     Hit (Envelope (failure ''Failed to fetch'')) \<and>
   fst (getCaseStudy_settled ''cs-1'' offline 0 empty_cache) = Inr (Envelope (failure ''Failed to fetch'')) \<and>
   fst (getCaseStudy ''cs-1'' 1000 (snd (getCaseStudy_settled ''cs-1'' offline 0 empty_cache))) =
     Hit (Envelope (failure ''Failed to fetch'')) \<and>
   makeRequest list_request (Response 200 (Json (rows_response [example_case]))) =
     Inr (Envelope (rows_response [example_case])) \<and>
   fst (getAllCaseStudies 2000
          (refresh_settled CASE_STUDIES list_request
             (Response 200 (Json (rows_response [example_case]))) 1500 after_failed_read)) =
     Hit (Envelope (rows_response [example_case])) \<and>
   makeRequest (item_request ''cs-1'') (Response 200 (Json (rows_response [example_case]))) =
     Inr (Envelope (rows_response [example_case])) \<and>
   fst (getCaseStudy ''cs-1'' 2000
          (refresh_settled (CASE_STUDY ''cs-1'') (item_request ''cs-1'')
             (Response 200 (Json (rows_response [example_case]))) 1500 after_failed_read)) =
     Hit (Envelope (rows_response [example_case]))"
proof -
  have b: "\<not> success (failure ''Failed to fetch'' :: case_study list api_response)"
    by (simp add: failure_def)
  note inst = failed_reads_are_cached [of offline 0 empty_cache "failure ''Failed to fetch''"
      1000 "''cs-1''" "Response 200 (Json (rows_response [example_case]))"
      "Envelope (rows_response [example_case])" 2000 1500 after_failed_read]
  show ?thesis
    using inst failed_read_envelope(1) failed_read_envelope(2) [of "''cs-1''"] b
      recovered_envelope [of list_request] recovered_envelope [of "item_request ''cs-1''"]
    by blast
qed

text \<open>
  Claim C10 as stated fails. A \<open>getAllCaseStudies\<close> at time 0 fails and its failure
  envelope is cached until 300000. A call at 250000, within the TTL, returns that
  envelope but starts a background request to the remote store. When that request has
  returned the recovered data at 251000, a call at 260000, still within the TTL of the
  failed read, returns the recovered data and not the failure envelope.
\<close>

theorem cached_failure_counterexample:
  "fst (getAllCaseStudies_settled offline 0 empty_cache) = Inr (Envelope (failure ''Failed to fetch'')) \<and>
   cache after_failed_read CASE_STUDIES =
     Some \<lparr> ci_data = Envelope (failure ''Failed to fetch''), ci_timestamp = 0, expiry = 300000 \<rparr> \<and>
   refreshing after_failed_read = [] \<and>
   fst (getAllCaseStudies 250000 after_failed_read) = Hit (Envelope (failure ''Failed to fetch'')) \<and>
   refreshing (snd (getAllCaseStudies 250000 after_failed_read)) = [(CASE_STUDIES, TTL_MEDIUM)] \<and>
   fst (getAllCaseStudies 260000
          (refresh_settled CASE_STUDIES list_request
             (Response 200 (Json (rows_response [example_case]))) 251000
             (snd (getAllCaseStudies 250000 after_failed_read))))
     = Hit (Envelope (rows_response [example_case]))"
proof -
  have b: "cache after_failed_read CASE_STUDIES =
             Some \<lparr> ci_data = Envelope (failure ''Failed to fetch''), ci_timestamp = 0, expiry = 300000 \<rparr>"
    "refreshing after_failed_read = []"
    by (simp_all add: after_failed_read_eq)
  have c: "fst (getAllCaseStudies 250000 after_failed_read) = Hit (Envelope (failure ''Failed to fetch''))"
    "refreshing (snd (getAllCaseStudies 250000 after_failed_read)) = [(CASE_STUDIES, TTL_MEDIUM)]"
    by (simp_all add: call_within_ttl)
  have d: "fst (getAllCaseStudies 260000
          (refresh_settled CASE_STUDIES list_request
             (Response 200 (Json (rows_response [example_case]))) 251000
             (snd (getAllCaseStudies 250000 after_failed_read))))
     = Hit (Envelope (rows_response [example_case]))"
    unfolding getAllCaseStudies_def
    by (rule read_after_refresh) (rule recovered_envelope)
  show ?thesis
    by (intro conjI failed_read_envelope(1) b c d)
qed

section \<open>Properties of the sync operations\<close>

lemma no_rows_iff: "no_rows r \<longleftrightarrow> \<not> has_rows r"
  by (auto simp: no_rows_def has_rows_def split: option.splits)

lemma io_of_append [simp]: "io_of (xs @ ys) = io_of xs @ io_of ys"
  by (simp add: io_of_def)

lemma io_of_callbacks [simp]:
  "io_of (onProgress opts c t a) = []"
  "io_of (onError opts msg) = []"
  "io_of (onSuccess opts msg) = []"
  by (simp_all add: io_of_def onProgress_def onError_def onSuccess_def)

lemma io_of_Cons [simp]: "io_of (ev # evs) = (if is_io ev then ev # io_of evs else io_of evs)"
  by (simp add: io_of_def)

lemma io_of_Nil [simp]: "io_of [] = []"
  by (simp add: io_of_def)

lemma io_of_saveLocalCases:
  "io_of (fst (saveLocalCases m cases written)) =
     SaveLocal (map (\<lambda>study. study\<lparr> iconName := Some (iconName_for m (icon study)) \<rparr>) cases)
       # (if written = Inr True then [Dispatch] else [])"
  by (auto simp: saveLocalCases_def Let_def split: sum.splits)

lemma io_of_syncFromDatabase:
  "io_of (fst (syncFromDatabase opts m response written)) =
     FetchAll #
       (if success response \<and> data response \<noteq> None
        then SaveLocal (map (\<lambda>study. study\<lparr> iconName := Some (iconName_for m (icon study)) \<rparr>)
                          (map (apiToLocal m) (case data response of Some rows \<Rightarrow> rows | None \<Rightarrow> [])))
               # (if written = Inr True then [Dispatch] else [])
        else [])"
  using io_of_saveLocalCases [of m "map (apiToLocal m) (case data response of Some rows \<Rightarrow> rows | None \<Rightarrow> [])" written]
  by (auto simp: syncFromDatabase_def Let_def split: prod.splits sum.splits)

lemma io_of_syncToDatabase:
  "io_of (fst (syncToDatabase opts m saved bulk)) =
     (if getLocalCases m saved = [] then [ReadLocal]
      else [ReadLocal, BulkUpdate (map (localToApi m) (getLocalCases m saved))])"
  by (auto simp: syncToDatabase_def Let_def)

lemma syncFromDatabase_result:
  "success response \<Longrightarrow> data response = Some rows \<Longrightarrow>
     snd (syncFromDatabase opts m response (Inr True)) = Inr (map (apiToLocal m) rows)"
  by (simp add: syncFromDatabase_def saveLocalCases_def Let_def)

lemma io_of_autoSync:
  "io_of (fst (autoSync opts m w)) =
     (if \<not> has_rows (w_all w) \<and> getLocalCases m (w_saved w) \<noteq> []
      then [ReadLocal, FetchAll] @ io_of (fst (syncToDatabase (opts\<lparr> has_onProgress := False \<rparr>) m (w_saved w) (w_bulk w)))
      else if has_rows (w_all w)
      then [ReadLocal, FetchAll] @ io_of (fst (syncFromDatabase (opts\<lparr> has_onProgress := False \<rparr>) m (w_all_again w) (w_written w)))
      else [ReadLocal, FetchAll])"
  by (auto simp: autoSync_def Let_def no_rows_iff split: prod.splits sum.splits)


lemma autoSync_idle:
  "getLocalCases m (w_saved w) = [] \<Longrightarrow> \<not> has_rows (w_all w) \<Longrightarrow>
     autoSync opts m w =
       (onProgress opts 0 3 ''Analyzing sync requirements...'' @ [ReadLocal, FetchAll]
          @ onProgress opts 1 3 ''Comparing data sources...''
          @ onProgress opts 3 3 ''Using local data...''
          @ onSuccess opts ''Auto-sync: Using local data (no database data available)'',
        Inr (''local'', []))"
  by (simp add: autoSync_def Let_def no_rows_iff)

lemma autoSync_pull_result:
  "has_rows (w_all w) \<Longrightarrow> success (w_all_again w) \<Longrightarrow> data (w_all_again w) = Some rows \<Longrightarrow>
     w_written w = Inr True \<Longrightarrow>
     snd (autoSync opts m w) = Inr (''fromDb'', map (apiToLocal m) rows)"
  using syncFromDatabase_result [of "w_all_again w" rows "opts\<lparr> has_onProgress := False \<rparr>" m]
  by (auto simp: autoSync_def Let_def no_rows_iff split: prod.splits sum.splits)

text \<open>
  Claim C6. \<open>autoSync\<close> uploads the local collection (a bulk update) exactly when
  the local mirror is not empty and the remote collection is empty or could not be
  read; its input and output are then the two classification reads, the read of the
  mirror by the push and the bulk update. When the remote collection was read and is
  not empty, whether or not the mirror is empty, it runs the pull: it fetches the
  remote collection again and, when that succeeds, writes the converted records to
  the mirror and returns them with direction \<open>fromDb\<close>; it uploads nothing. When the
  mirror is empty and the remote collection is empty (or could not be read), it does
  nothing beyond the two classification reads, calls no error callback, reports
  success and returns the empty list with direction \<open>local\<close>.
\<close>

theorem auto_sync_direction:
  "((\<exists>cs. BulkUpdate cs \<in> set (fst (autoSync opts m w))) \<longleftrightarrow>
      getLocalCases m (w_saved w) \<noteq> [] \<and> \<not> has_rows (w_all w)) \<and>
   (getLocalCases m (w_saved w) \<noteq> [] \<and> \<not> has_rows (w_all w) \<longrightarrow>
      io_of (fst (autoSync opts m w)) =
        [ReadLocal, FetchAll, ReadLocal,
         BulkUpdate (map (localToApi m) (getLocalCases m (w_saved w)))]) \<and>
   (has_rows (w_all w) \<longrightarrow>
      io_of (fst (autoSync opts m w)) =
        [ReadLocal, FetchAll, FetchAll] @
        (if success (w_all_again w) \<and> data (w_all_again w) \<noteq> None
         then SaveLocal (converted_rows m (w_all_again w))
                # (if w_written w = Inr True then [Dispatch] else [])
         else []) \<and>
      (\<forall>rows. success (w_all_again w) \<and> data (w_all_again w) = Some rows \<and> w_written w = Inr True
         \<longrightarrow> snd (autoSync opts m w) = Inr (''fromDb'', map (apiToLocal m) rows))) \<and>
   (getLocalCases m (w_saved w) = [] \<and> \<not> has_rows (w_all w) \<longrightarrow>
      io_of (fst (autoSync opts m w)) = [ReadLocal, FetchAll] \<and>
      snd (autoSync opts m w) = Inr (''local'', []) \<and>
      (\<forall>msg. OnError msg \<notin> set (fst (autoSync opts m w))) \<and>
      (has_onSuccess opts \<longrightarrow>
         OnSuccess ''Auto-sync: Using local data (no database data available)''
           \<in> set (fst (autoSync opts m w))))"
proof -
  let ?local = "getLocalCases m (w_saved w)"
  let ?evs = "fst (autoSync opts m w)"
  have io: "io_of ?evs =
     (if \<not> has_rows (w_all w) \<and> ?local \<noteq> []
      then [ReadLocal, FetchAll, ReadLocal, BulkUpdate (map (localToApi m) ?local)]
      else if has_rows (w_all w)
      then [ReadLocal, FetchAll, FetchAll] @
        (if success (w_all_again w) \<and> data (w_all_again w) \<noteq> None
         then SaveLocal (converted_rows m (w_all_again w))
                # (if w_written w = Inr True then [Dispatch] else [])
         else [])
      else [ReadLocal, FetchAll])"
    by (auto simp add: io_of_autoSync io_of_syncToDatabase io_of_syncFromDatabase
          converted_rows_def)
  have push: "(\<exists>cs. BulkUpdate cs \<in> set ?evs) \<longleftrightarrow> ?local \<noteq> [] \<and> \<not> has_rows (w_all w)"
  proof -
    have "(\<exists>cs. BulkUpdate cs \<in> set ?evs) \<longleftrightarrow> (\<exists>cs. BulkUpdate cs \<in> set (io_of ?evs))"
      by (simp add: io_of_def)
    also have "\<dots> \<longleftrightarrow> ?local \<noteq> [] \<and> \<not> has_rows (w_all w)"
      by (auto simp add: io)
    finally show ?thesis .
  qed
  have idle_evs: "(\<forall>msg. OnError msg \<notin> set ?evs) \<and>
      (has_onSuccess opts \<longrightarrow>
         OnSuccess ''Auto-sync: Using local data (no database data available)'' \<in> set ?evs) \<and>
      snd (autoSync opts m w) = Inr (''local'', [])"
    if "?local = []" "\<not> has_rows (w_all w)"
    by (simp add: autoSync_idle [OF that] onProgress_def onSuccess_def)
  show ?thesis
    using push io idle_evs autoSync_pull_result [of w _ opts m]
    by (simp (no_asm_simp))
qed


theorem auto_sync_direction_witness:
  "getLocalCases [] (w_saved push_world) \<noteq> [] \<and> \<not> has_rows (w_all push_world) \<and>
   io_of (fst (autoSync all_callbacks [] push_world)) =
     [ReadLocal, FetchAll, ReadLocal,
      BulkUpdate (map (localToApi []) (getLocalCases [] (w_saved push_world)))] \<and>
   getLocalCases [] (w_saved pull_world) \<noteq> [] \<and> has_rows (w_all pull_world) \<and>
   io_of (fst (autoSync all_callbacks [] pull_world)) =
     [ReadLocal, FetchAll, FetchAll, SaveLocal (converted_rows [] (w_all_again pull_world)), Dispatch] \<and>
   snd (autoSync all_callbacks [] pull_world) = Inr (''fromDb'', map (apiToLocal []) [example_case]) \<and>
   getLocalCases [] (w_saved idle_world) = [] \<and> \<not> has_rows (w_all idle_world) \<and>
   io_of (fst (autoSync all_callbacks [] idle_world)) = [ReadLocal, FetchAll] \<and>
   snd (autoSync all_callbacks [] idle_world) = Inr (''local'', []) \<and>
   OnSuccess ''Auto-sync: Using local data (no database data available)''
     \<in> set (fst (autoSync all_callbacks [] idle_world))"
proof -
  have push: "getLocalCases [] (w_saved push_world) \<noteq> []" "\<not> has_rows (w_all push_world)"
    by (simp_all add: push_world_def stored_two_def getLocalCases_def has_rows_def failure_def)
  have pull: "getLocalCases [] (w_saved pull_world) \<noteq> []" "has_rows (w_all pull_world)"
    "success (w_all_again pull_world)" "data (w_all_again pull_world) = Some [example_case]"
    "w_written pull_world = Inr True"
    by (simp_all add: pull_world_def stored_two_def getLocalCases_def has_rows_def
          rows_response_def)
  have idle: "getLocalCases [] (w_saved idle_world) = []" "\<not> has_rows (w_all idle_world)"
    by (simp_all add: idle_world_def getLocalCases_def has_rows_def rows_response_def)
  have cb: "has_onSuccess all_callbacks"
    by (simp add: all_callbacks_def)
  show ?thesis
    using auto_sync_direction [of all_callbacks "[]" push_world] auto_sync_direction [of all_callbacks "[]" pull_world]
      auto_sync_direction [of all_callbacks "[]" idle_world] push pull idle cb
    by simp
qed

end
